theory Spec2Isabelle
  imports Complex_Main "HOL-Library.Multiset" "HOL-Library.Sublist"
begin

section \<open>Common values\<close>

text \<open>
  The Python exceptions that the modelled functions raise or let escape. A function that
  can raise returns \<open>py_error + 'a\<close>, with \<open>Inl\<close> for the exception.
\<close>

datatype py_error = FileNotFoundError | ValueError | IsADirectoryError | IndexError
  | UnidentifiedImageError

text \<open>
  A directory is the list of its entries in the order \<open>glob("*")\<close> lists them. An entry is
  a regular file or a subdirectory; both carry the size that \<open>stat().st_size\<close> reports.
\<close>

datatype entry = File nat | Dir nat

fun st_size :: "entry \<Rightarrow> nat" where
  "st_size (File n) = n"
| "st_size (Dir n) = n"

fun is_file :: "entry \<Rightarrow> bool" where
  "is_file (File n) = True"
| "is_file (Dir n) = False"

type_synonym directory = "(string \<times> entry) list"

definition files_only :: "directory \<Rightarrow> bool" where
  "files_only d = list_all (\<lambda>(name, e). is_file e) d"

text \<open>
  The values of a task configuration dictionary. Floats are carried as rationals; no
  modelled function computes with them.
\<close>

datatype cfg_value = CStr string | CInt int | CNum rat | CList "cfg_value list"

type_synonym task_config = "(string \<times> cfg_value) list"

section \<open>shared/renderer.py\<close>

subsection \<open>The subprocess and the random source\<close>

text \<open>
  \<open>subprocess.run\<close> either returns a completed process (return code and captured standard
  output) or raises: \<open>TimeoutExpired\<close> after the timeout, or another exception (for
  instance when the binary cannot be started).
\<close>

record completed_process =
  returncode :: int
  stdout :: string

datatype run_exn = TimeoutExpired | OtherException

text \<open>
  One element of the command line. \<open>json.dumps\<close> is not interpreted: the serialised value
  is carried under a constructor.
\<close>

datatype arg = Str string | JsonConfig task_config | JsonPaths "string list"

text \<open>
  The environment of one job is everything the code does not decide: what the renderer
  subprocess does at its \<open>n\<close>-th launch with a given command line, timeout and content of
  the output directory (its outcome and the directory it leaves behind); the raw number
  behind the \<open>c\<close>-th call of the random module, for \<open>random.choice\<close>; and the positions
  \<open>random.sample\<close> picks when it is the \<open>c\<close>-th call of the random module, on a
  population of \<open>n\<close> elements and for a sample of \<open>k\<close>.
\<close>

record env =
  subprocess_run :: "nat \<Rightarrow> arg list \<Rightarrow> int \<Rightarrow> directory \<Rightarrow> (run_exn + completed_process) \<times> directory"
  random_bits :: "nat \<Rightarrow> nat"
  sample_positions :: "nat \<Rightarrow> nat \<Rightarrow> nat \<Rightarrow> nat list"

text \<open>
  The state a job changes: the content of its output directory, the number of renderer
  launches so far and the number of calls of the random module so far.
\<close>

record world =
  out_dir :: directory
  launches :: nat
  draws :: nat

subsection \<open>Library functions\<close>

text \<open>\<open>needle in haystack\<close> on strings.\<close>

fun str_contains :: "string \<Rightarrow> string \<Rightarrow> bool" where
  "str_contains needle [] = (needle = [])"
| "str_contains needle (c # cs) = (prefix needle (c # cs) \<or> str_contains needle cs)"


definition random_sample :: "env \<Rightarrow> 'a list \<Rightarrow> int \<Rightarrow> world \<Rightarrow> py_error + ('a list \<times> world)" where
  "random_sample e population k w =
     (if k < 0 \<or> int (length population) < k then Inl ValueError
      else Inr (map (\<lambda>j. population ! j)
                  (sample_positions e (draws w) (length population) (nat k)),
                w\<lparr>draws := Suc (draws w)\<rparr>))"

text \<open>
  \<open>random.choice(seq)\<close>: one random number picks a position; an empty sequence raises
  \<open>IndexError\<close>.
\<close>

definition random_choice :: "env \<Rightarrow> 'a list \<Rightarrow> world \<Rightarrow> py_error + ('a \<times> world)" where
  "random_choice e xs w =
     (if xs = [] then Inl IndexError
      else Inr (xs ! (random_bits e (draws w) mod length xs), w\<lparr>draws := Suc (draws w)\<rparr>))"

subsection \<open>render_video_task\<close>

definition BLENDER_SCRIPT :: string where
  "BLENDER_SCRIPT = ''shared/blender_render.py''"

definition build_cmd :: "string \<Rightarrow> task_config \<Rightarrow> string list \<Rightarrow> string \<Rightarrow> arg list" where
  "build_cmd blender_path task_cfg object_paths output_dir =
     [Str blender_path, Str ''--background'',
      Str ''--python'', Str BLENDER_SCRIPT, Str ''--'',
      Str ''--task_config'', JsonConfig task_cfg,
      Str ''--object_paths'', JsonPaths object_paths,
      Str ''--output_dir'', Str output_dir]"

text \<open>
  The \<open>try\<close> block returns the conjunction of the two tests on the completed process; the
  \<open>except\<close> clause turns \<open>TimeoutExpired\<close> and every other exception into \<open>False\<close>. The
  launch is counted and the directory the subprocess leaves behind becomes the content of
  the output directory.
\<close>

definition render_video_task ::
  "env \<Rightarrow> string \<Rightarrow> task_config \<Rightarrow> string list \<Rightarrow> string \<Rightarrow> int \<Rightarrow> world \<Rightarrow> (py_error + bool) \<times> world" where
  "render_video_task e blender_path task_cfg object_paths output_dir timeout w =
     (let cmd = build_cmd blender_path task_cfg object_paths output_dir;
          (r, d) = subprocess_run e (launches w) cmd timeout (out_dir w);
          w' = w\<lparr>out_dir := d, launches := Suc (launches w)\<rparr>
      in (case r of
            Inr result \<Rightarrow> Inr (returncode result = 0 \<and> str_contains ''RENDER_SUCCESS'' (stdout result))
          | Inl TimeoutExpired \<Rightarrow> Inr False
          | Inl OtherException \<Rightarrow> Inr False,
          w'))"

text \<open>
  What \<open>render_video_task\<close> returns and what it leaves in the output directory when it
  makes launch number \<open>n\<close> with the given object paths on an emptied output directory.
\<close>

definition launch ::
  "env \<Rightarrow> string \<Rightarrow> task_config \<Rightarrow> string \<Rightarrow> int \<Rightarrow> nat \<Rightarrow> string list \<Rightarrow> (py_error + bool) \<times> directory" where
  "launch e blender_path task_cfg output_dir timeout n object_paths =
     (case render_video_task e blender_path task_cfg object_paths output_dir timeout
             \<lparr>out_dir = [], launches = n, draws = 0\<rparr> of
        (r, w1) \<Rightarrow> (r, out_dir w1))"

subsection \<open>render_with_retry\<close>

record retry_args =
  blender_path :: string
  task_cfg :: task_config
  object_paths :: "string list"
  all_objects :: "string list"
  output_dir :: string
  num_objects :: int
  min_video_size :: int
  max_retries :: int
  timeout :: int

text \<open>
  \<open>for f in out.glob("*"): f.unlink()\<close>. Unlinking a regular file removes it; unlinking a
  subdirectory raises, and the entries not yet visited stay. The result is the exception,
  if any, and the directory left behind.
\<close>

fun unlink_all :: "directory \<Rightarrow> py_error option \<times> directory" where
  "unlink_all [] = (None, [])"
| "unlink_all ((name, File n) # rest) = unlink_all rest"
| "unlink_all ((name, Dir n) # rest) = (Some IsADirectoryError, (name, Dir n) # rest)"

text \<open>
  \<open>video_file.exists() and video_file.stat().st_size > min_video_size\<close> for
  \<open>video_file = out / "ground_truth.mp4"\<close>.
\<close>

definition video_valid :: "directory \<Rightarrow> int \<Rightarrow> bool" where
  "video_valid d min_size =
     (case map_of d ''ground_truth.mp4'' of
        None \<Rightarrow> False
      | Some e \<Rightarrow> int (st_size e) > min_size)"

text \<open>
  What is recorded of one pass through the loop body that reached the renderer: the
  object paths it was given, what \<open>render_video_task\<close> returned and the output directory
  after it.
\<close>

record attempt =
  objs :: "string list"
  reported :: bool
  dir_after :: directory

definition attempt_valid :: "int \<Rightarrow> attempt \<Rightarrow> bool" where
  "attempt_valid min_size a = (reported a \<and> video_valid (dir_after a) min_size)"

text \<open>
  The loop \<open>for attempt in range(max_retries)\<close> from the value \<open>attempt\<close> on, with the
  current object paths. The result is the returned boolean or the exception that escapes,
  the world left behind, and the attempts made, oldest first.
\<close>

function retry_loop ::
  "env \<Rightarrow> retry_args \<Rightarrow> int \<Rightarrow> string list \<Rightarrow> world \<Rightarrow> (py_error + bool) \<times> world \<times> attempt list" where
  "retry_loop e a attempt current_objs w =
     (if attempt < max_retries a then
        (case unlink_all (out_dir w) of
           (Some err, d) \<Rightarrow> (Inl err, w\<lparr>out_dir := d\<rparr>, [])
         | (None, d) \<Rightarrow>
            (case render_video_task e (blender_path a) (task_cfg a) current_objs
                    (output_dir a) (timeout a) (w\<lparr>out_dir := d\<rparr>) of
               (Inl err, w1) \<Rightarrow> (Inl err, w1, [])
             | (Inr success, w1) \<Rightarrow>
                (let this = \<lparr>objs = current_objs, reported = success, dir_after = out_dir w1\<rparr>
                 in if success \<and> video_valid (out_dir w1) (min_video_size a)
                    then (Inr True, w1, [this])
                    else
                      (case (if attempt < max_retries a - 1 \<and> all_objects a \<noteq> []
                             then random_sample e (all_objects a)
                                    (min (num_objects a) (int (length (all_objects a)))) w1
                             else Inr (current_objs, w1)) of
                         Inl err \<Rightarrow> (Inl err, w1, [this])
                       | Inr (next_objs, w2) \<Rightarrow>
                          (case retry_loop e a (attempt + 1) next_objs w2 of
                             (r, w3, later) \<Rightarrow> (r, w3, this # later))))))
      else (Inr False, w, []))"
  by pat_completeness auto
termination
  by (relation "measure (\<lambda>(e, a, attempt, current_objs, w). nat (max_retries a - attempt))") auto

definition render_with_retry ::
  "env \<Rightarrow> retry_args \<Rightarrow> world \<Rightarrow> (py_error + bool) \<times> world \<times> attempt list" where
  "render_with_retry e a w = retry_loop e a 0 (object_paths a) w"


text \<open>
  \<open>find_blender\<close>: the given path if it is set and exists, else the first candidate that is
  set and exists, else \<open>FileNotFoundError\<close>. The file system is a predicate for
  \<open>Path(p).exists()\<close>, the lines of each text file, and what \<open>shutil.which("blender")\<close>
  answers.
\<close>

record file_system =
  path_exists :: "string \<Rightarrow> bool"
  read_lines :: "string \<Rightarrow> string list"
  which_blender :: "string option"


section \<open>shared/objects.py\<close>

definition DEFAULT_ASSETS :: string where
  "DEFAULT_ASSETS = ''assets/good_objects.txt''"

text \<open>
  \<open>str.strip()\<close> removes leading and trailing whitespace; on ASCII these are the
  characters 9 to 13 and 28 to 32.
\<close>

definition is_space :: "char \<Rightarrow> bool" where
  "is_space c = (let n = (of_char c :: nat) in (9 \<le> n \<and> n \<le> 13) \<or> (28 \<le> n \<and> n \<le> 32))"

definition strip :: "string \<Rightarrow> string" where
  "strip s = rev (dropWhile is_space (rev (dropWhile is_space s)))"

definition endswith :: "string \<Rightarrow> string \<Rightarrow> bool" where
  "endswith s suf = suffix suf s"

text \<open>
  The list source is the given path, or the packaged default when the argument is \<open>None\<close>
  or empty.
\<close>

definition list_path :: "string option \<Rightarrow> string" where
  "list_path object_list =
     (case object_list of
        None \<Rightarrow> DEFAULT_ASSETS
      | Some p \<Rightarrow> if p \<noteq> [] then p else DEFAULT_ASSETS)"

text \<open>\<open>[line.strip() for line in f if line.strip()]\<close>\<close>

definition stripped_lines :: "file_system \<Rightarrow> string \<Rightarrow> string list" where
  "stripped_lines fs path = map strip (filter (\<lambda>line. strip line \<noteq> []) (read_lines fs path))"

text \<open>
  \<open>load_objects\<close>. The second argument is \<open>objaverse.load_objects\<close>, which answers a list of
  identifiers with a dictionary from identifier to local path. An existing list source is
  taken to be a readable text file.
\<close>

definition load_objects ::
  "file_system \<Rightarrow> (string list \<Rightarrow> string \<Rightarrow> string option) \<Rightarrow> string option \<Rightarrow> py_error + string list" where
  "load_objects fs objaverse_load_objects object_list =
     (let path = list_path object_list
      in if \<not> path_exists fs path then Inl FileNotFoundError
         else
           (case stripped_lines fs path of
              [] \<Rightarrow> Inl ValueError
            | sample # others \<Rightarrow>
               (let lines = sample # others
                in if CHR ''/'' \<in> set sample \<or> endswith sample ''.glb'' then
                     (let valid = filter (path_exists fs) lines
                      in if valid = [] then Inl FileNotFoundError else Inr valid)
                   else
                     (let uid_to_path = objaverse_load_objects lines;
                          valid = List.map_filter
                                    (\<lambda>uid. case uid_to_path uid of
                                             None \<Rightarrow> None
                                           | Some p \<Rightarrow> if p \<noteq> [] \<and> path_exists fs p then Some p else None)
                                    lines
                      in if valid = [] then Inl FileNotFoundError else Inr valid))))"

text \<open>
  The two input modes, told apart by the first entry, and what one entry resolves to in
  each: in path mode the entry itself if it exists; in identifier mode the path the lookup
  returned, if it is non-empty and exists.
\<close>

definition path_mode :: "string list \<Rightarrow> bool" where
  "path_mode lines = (case lines of [] \<Rightarrow> False | sample # _ \<Rightarrow> CHR ''/'' \<in> set sample \<or> endswith sample ''.glb'')"

definition resolve_entry ::
  "file_system \<Rightarrow> (string list \<Rightarrow> string \<Rightarrow> string option) \<Rightarrow> string list \<Rightarrow> string \<Rightarrow> string option" where
  "resolve_entry fs objaverse_load_objects lines entry =
     (if path_mode lines then (if path_exists fs entry then Some entry else None)
      else (case objaverse_load_objects lines entry of
              None \<Rightarrow> None
            | Some p \<Rightarrow> if p \<noteq> [] \<and> path_exists fs p then Some p else None))"

section \<open>shared/blender_render.py\<close>

text \<open>
  A mesh object as \<open>import_single_object\<close> sees it: its vertices in world coordinates
  (\<open>obj.matrix_world @ v.co\<close>), its location and its scale. Coordinates are rationals.
\<close>

type_synonym vec3 = "rat \<times> rat \<times> rat"

record mesh_object =
  vertices :: "vec3 list"
  location :: vec3
  scale :: vec3

definition coord :: "nat \<Rightarrow> vec3 \<Rightarrow> rat" where
  "coord j v = (case v of (x, y, z) \<Rightarrow> if j = 0 then x else if j = 1 then y else z)"

text \<open>\<open>min(v[j] for v in all_verts)\<close> and \<open>max(...)\<close> on a non-empty list.\<close>

definition min_coord :: "nat \<Rightarrow> vec3 \<Rightarrow> vec3 list \<Rightarrow> rat" where
  "min_coord j v vs = fold (\<lambda>u m. min (coord j u) m) vs (coord j v)"

definition max_coord :: "nat \<Rightarrow> vec3 \<Rightarrow> vec3 list \<Rightarrow> rat" where
  "max_coord j v vs = fold (\<lambda>u m. max (coord j u) m) vs (coord j v)"

text \<open>
  \<open>import_object\<close>: the importer is chosen by the file extension, any other extension
  raises \<open>ValueError\<close>. The first argument stands for Blender: the mesh objects selected
  after importing the file.
\<close>

definition import_object :: "(string \<Rightarrow> mesh_object list) \<Rightarrow> string \<Rightarrow> py_error + mesh_object list" where
  "import_object bpy_import filepath =
     (if endswith filepath ''.glb'' \<or> endswith filepath ''.gltf'' then Inr (bpy_import filepath)
      else if endswith filepath ''.obj'' then Inr (bpy_import filepath)
      else Inl ValueError)"

text \<open>The largest side of the bounding box of a non-empty list of vertices.\<close>

definition bbox_size :: "vec3 \<Rightarrow> vec3 list \<Rightarrow> rat" where
  "bbox_size v vs =
     (let dims = (\<lambda>j. max_coord j v vs - min_coord j v vs)
      in max (dims 0) (max (dims 1) (dims 2)))"

text \<open>
  \<open>import_single_object\<close>. Materials are left out. An empty result means that the asset
  is rejected: nothing was imported, it has fewer than 4 vertices, or its bounding box is
  smaller than 0.001.
\<close>

definition import_single_object ::
  "(string \<Rightarrow> mesh_object list) \<Rightarrow> string \<Rightarrow> rat \<Rightarrow> py_error + mesh_object list" where
  "import_single_object bpy_import path target_size =
     (case import_object bpy_import path of
        Inl err \<Rightarrow> Inl err
      | Inr objects \<Rightarrow>
         if objects = [] then Inr []
         else
           (let all_verts = concat (map vertices objects);
                total_verts = sum_list (map (\<lambda>obj. length (vertices obj)) objects)
            in if total_verts < 4 then Inr []
               else
                 (case all_verts of
                    [] \<Rightarrow> Inr objects
                  | v # vs \<Rightarrow>
                     (let center = (\<lambda>j. (min_coord j v vs + max_coord j v vs) / 2);
                          size = bbox_size v vs
                      in if size < 1 / 1000 then Inr []
                         else if size > 0 then
                           (let sf = target_size / size
                            in Inr (map (\<lambda>obj. case (location obj, scale obj) of
                                      ((lx, ly, lz), (sx, sy, sz)) \<Rightarrow>
                                        obj\<lparr>location := (lx - center 0, ly - center 1, lz - center 2),
                                            scale := (sx * sf, sy * sf, sz * sf)\<rparr>)
                                    objects))
                         else Inr objects))))"

section \<open>tasks/shape_extrapolation.py\<close>

subsection \<open>Configuration, images and records\<close>

text \<open>
  \<open>TaskConfig\<close> with the fields the generator reads. \<open>num_samples\<close> is inherited from
  \<open>GenerationConfig\<close>.
\<close>

record TaskConfig =
  num_samples :: int
  domain :: string
  image_size :: "int \<times> int"
  fps :: int
  duration :: rat
  camera_distance :: rat
  camera_elevation :: rat
  rotations :: rat
  workers :: int
  cfg_blender_path :: "string option"
  cfg_timeout :: int
  cfg_min_video_size :: int
  cfg_max_retries :: int
  object_list :: "string option"

text \<open>
  A PIL image: its mode, its size (width, height) and its pixels, row by row.
  \<open>Image.new(mode, size, color)\<close> fills every pixel with the colour and raises
  \<open>ValueError\<close> on a negative width or height.
\<close>

type_synonym rgb = "nat \<times> nat \<times> nat"

record image =
  img_mode :: string
  img_size :: "nat \<times> nat"
  pixels :: "rgb list"

definition Image_new :: "string \<Rightarrow> int \<times> int \<Rightarrow> rgb \<Rightarrow> py_error + image" where
  "Image_new m sz color =
     (case sz of (width, height) \<Rightarrow>
        if width < 0 \<or> height < 0 then Inl ValueError
        else Inr \<lparr>img_mode = m, img_size = (nat width, nat height),
                  pixels = replicate (nat width * nat height) color\<rparr>)"

text \<open>
  Modelled from the spec: \<open>TaskPair\<close> is declared in \<open>core/schemas.py\<close>, which is not among
  the sources. The spec gives it the fields task id, domain, prompt, first image, final
  image and an optional ground-truth video reference; a pair built without a video
  reference has none.
\<close>

record TaskPair =
  task_id :: string
  pair_domain :: string
  prompt :: string
  first_image :: image
  final_image :: image
  ground_truth_video :: "string option"

text \<open>The dictionary \<open>_render_one\<close> returns.\<close>

record job_result =
  result_task_id :: string
  result_output_dir :: string
  success :: bool

text \<open>The generator object: \<open>self.config\<close>, \<open>self.blender\<close>, \<open>self.objects\<close>, \<open>self._work_dir\<close>, \<open>self._task_cfg\<close>.\<close>

record TaskGenerator =
  config :: TaskConfig
  blender :: string
  objects :: "string list"
  work_dir :: string
  gen_task_cfg :: task_config

text \<open>The argument tuple of \<open>_render_one\<close>.\<close>

type_synonym job_args =
  "string \<times> string \<times> string list \<times> task_config \<times> int \<times> int \<times> int \<times> string"

text \<open>
  What the parent process does not decide: for the job with a given output directory, the
  environment of the worker that runs it and the content of that directory once
  \<open>mkdir\<close> has made sure it exists; the order in which \<open>as_completed\<close> hands the submitted
  jobs back; the raw random numbers behind \<open>get_prompt\<close>; and what
  \<open>Image.open(path).convert("RGB")\<close> gives.
\<close>

record gen_env =
  job_env :: "string \<Rightarrow> env"
  job_dir :: "string \<Rightarrow> directory"
  as_completed :: "job_args list \<Rightarrow> job_args list"
  prompt_bits :: "nat \<Rightarrow> nat"
  open_rgb :: "string \<Rightarrow> py_error + image"

subsection \<open>Prompts\<close>

definition PROMPTS :: "string list" where
  "PROMPTS =
     [''A camera orbits 360 degrees around a 3D object. Given the first 75% of the video (270 degrees of rotation), predict what the object looks like from the remaining unseen angles. Generate the final 25% of frames showing the back side of the object.'',
      ''This video shows a 3D object being viewed from a camera that rotates around it. The video captures the first three-quarters of a full orbit. Predict the next-frame sequence that completes the remaining quarter of the orbit, revealing the previously unseen side of the object.'',
      ''A 3D object is filmed by a camera performing a circular orbit. You are shown 75% of the rotation. Extrapolate the object's appearance for the remaining 25% of angles to complete the full 360-degree view.'',
      ''Watch a camera slowly orbit around a single 3D object. The video shows 270 degrees of the orbit. Your task is to predict the final 90 degrees of rotation, showing what the back of the object looks like based on the geometry and textures visible so far.'',
      ''A single 3D object is captured by an orbiting camera. Given the majority of the orbit as context, generate the remaining frames that complete the full rotation around the object.'']"

text \<open>\<open>random.choice(PROMPTS)\<close> with the \<open>k\<close>-th random number of the parent process.\<close>

definition get_prompt :: "gen_env \<Rightarrow> nat \<Rightarrow> string" where
  "get_prompt ge k = PROMPTS ! (prompt_bits ge k mod 5)"

subsection \<open>The generator\<close>

definition NUM_OBJECTS :: int where
  "NUM_OBJECTS = 1"

definition build_task_config :: "TaskConfig \<Rightarrow> task_config" where
  "build_task_config c =
     [(''task_type'', CStr ''shape_extrapolation''),
      (''resolution'', CInt (fst (image_size c))),
      (''fps'', CInt (fps c)),
      (''duration'', CNum (duration c)),
      (''camera_distance'', CNum (camera_distance c)),
      (''camera_elevation'', CNum (camera_elevation c)),
      (''rotations'', CNum (rotations c))]"

text \<open>
  \<open>_render_one\<close>: the job's directory is \<open>work_dir / task_id\<close>; one object is chosen at
  random; \<open>render_with_retry\<close> is called once. Besides the returned dictionary the model
  gives the world the job leaves and the attempts it made.
\<close>

definition render_one :: "gen_env \<Rightarrow> job_args \<Rightarrow> (py_error + job_result) \<times> world \<times> attempt list" where
  "render_one ge args =
     (case args of (tid, bl, all_objs, cfg, min_sz, retries, tmo, wd) \<Rightarrow>
        (let out = wd @ ''/'' @ tid;
             e = job_env ge out;
             w0 = \<lparr>out_dir = job_dir ge out, launches = 0, draws = 0\<rparr>
         in case random_choice e all_objs w0 of
              Inl err \<Rightarrow> (Inl err, w0, [])
            | Inr (obj, w1) \<Rightarrow>
               (case render_with_retry e
                       \<lparr>blender_path = bl, task_cfg = cfg, object_paths = [obj],
                        all_objects = all_objs, output_dir = out, num_objects = NUM_OBJECTS,
                        min_video_size = min_sz, max_retries = retries, timeout = tmo\<rparr> w1 of
                  (Inl err, w2, tr) \<Rightarrow> (Inl err, w2, tr)
                | (Inr ok, w2, tr) \<Rightarrow>
                    (Inr \<lparr>result_task_id = tid, result_output_dir = out, success = ok\<rparr>, w2, tr))))"


text \<open>
  \<open>_result_to_pair\<close>; \<open>k\<close> is the position of the random number \<open>get_prompt\<close> uses.
\<close>

definition result_to_pair :: "gen_env \<Rightarrow> TaskGenerator \<Rightarrow> job_result \<Rightarrow> nat \<Rightarrow> py_error + TaskPair" where
  "result_to_pair ge self result k =
     (if \<not> success result then
        (case Image_new ''RGB'' (image_size (config self)) (0, 0, 0) of
           Inl err \<Rightarrow> Inl err
         | Inr blank \<Rightarrow>
             Inr \<lparr>task_id = result_task_id result, pair_domain = domain (config self),
                  prompt = get_prompt ge k, first_image = blank, final_image = blank,
                  ground_truth_video = None\<rparr>)
      else
        (let d = result_output_dir result
         in case open_rgb ge (d @ ''/first_frame.png'') of
              Inl err \<Rightarrow> Inl err
            | Inr first \<Rightarrow>
               (case open_rgb ge (d @ ''/final_frame.png'') of
                  Inl err \<Rightarrow> Inl err
                | Inr final \<Rightarrow>
                    Inr \<lparr>task_id = result_task_id result, pair_domain = domain (config self),
                         prompt = get_prompt ge k, first_image = first, final_image = final,
                         ground_truth_video = Some (d @ ''/ground_truth.mp4'')\<rparr>)))"

definition job_tuple :: "TaskGenerator \<Rightarrow> string \<Rightarrow> job_args" where
  "job_tuple self tid =
     (tid, blender self, objects self, gen_task_cfg self,
      cfg_min_video_size (config self), cfg_max_retries (config self),
      cfg_timeout (config self), work_dir self)"

definition generate_task_pair :: "gen_env \<Rightarrow> TaskGenerator \<Rightarrow> string \<Rightarrow> py_error + TaskPair" where
  "generate_task_pair ge self tid =
     (case fst (render_one ge (job_tuple self tid)) of
        Inl err \<Rightarrow> Inl err
      | Inr result \<Rightarrow> result_to_pair ge self result 0)"

text \<open>
  The loop \<open>for fut in as_completed(futs)\<close> over the outcomes of the jobs in completion
  order. \<open>fut.result()\<close> raises what the job raised. A successful result is converted and
  appended and \<open>ok\<close> is incremented; a failed result only increments \<open>fail\<close>. \<open>get_prompt\<close>
  has been called once for each pair appended so far, so its next random number is at
  position \<open>ok\<close>. The progress lines are left out.
\<close>

fun parallel_render_loop ::
  "gen_env \<Rightarrow> TaskGenerator \<Rightarrow> (py_error + job_result) list \<Rightarrow> TaskPair list \<Rightarrow> nat \<Rightarrow> nat
     \<Rightarrow> py_error + TaskPair list" where
  "parallel_render_loop ge self [] pairs ok fail = Inr pairs"
| "parallel_render_loop ge self (fut # futs) pairs ok fail =
     (case fut of
        Inl err \<Rightarrow> Inl err
      | Inr r \<Rightarrow>
         if success r then
           (case result_to_pair ge self r ok of
              Inl err \<Rightarrow> Inl err
            | Inr p \<Rightarrow> parallel_render_loop ge self futs (pairs @ [p]) (ok + 1) fail)
         else parallel_render_loop ge self futs pairs ok (fail + 1))"

text \<open>
  \<open>_parallel_render\<close>: \<open>ProcessPoolExecutor(max_workers=workers)\<close> raises \<open>ValueError\<close>
  unless \<open>workers\<close> is positive; every element of \<open>args_list\<close> is submitted.
\<close>

definition parallel_render ::
  "gen_env \<Rightarrow> TaskGenerator \<Rightarrow> job_args list \<Rightarrow> int \<Rightarrow> int \<Rightarrow> py_error + TaskPair list" where
  "parallel_render ge self args_list n_workers n =
     (if n_workers \<le> 0 then Inl ValueError
      else parallel_render_loop ge self
             (map (\<lambda>a. fst (render_one ge a)) (as_completed ge args_list)) [] 0 0)"

text \<open>\<open>str(i)\<close> for a natural number and \<open>f"{i:06d}"\<close>.\<close>

definition digit_char :: "nat \<Rightarrow> char" where
  "digit_char d = char_of (48 + d)"

fun digits :: "nat \<Rightarrow> string" where
  "digits n = (if n < 10 then [digit_char n] else digits (n div 10) @ [digit_char (n mod 10)])"

definition zfill6 :: "nat \<Rightarrow> string" where
  "zfill6 i = replicate (6 - length (digits i)) CHR ''0'' @ digits i"

definition make_args_list :: "TaskGenerator \<Rightarrow> job_args list" where
  "make_args_list self =
     map (\<lambda>i. job_tuple self (domain (config self) @ ''_'' @ zfill6 i))
       [0..<nat (num_samples (config self))]"

definition generate_dataset :: "gen_env \<Rightarrow> TaskGenerator \<Rightarrow> py_error + TaskPair list" where
  "generate_dataset ge self =
     (let n = num_samples (config self);
          n_workers = min (workers (config self)) n;
          args_list = make_args_list self
      in parallel_render ge self args_list n_workers n)"

text \<open>
  A submitted job succeeded when \<open>_render_one\<close> returned a result whose \<open>success\<close> is
  true. The number a decimal string denotes, used to tell task identifiers apart.
\<close>

definition job_succeeded :: "gen_env \<Rightarrow> job_args \<Rightarrow> bool" where
  "job_succeeded ge a = (case fst (render_one ge a) of Inl err \<Rightarrow> False | Inr r \<Rightarrow> success r)"

definition num_of :: "string \<Rightarrow> nat" where
  "num_of s = foldl (\<lambda>a c. 10 * a + (of_char c - 48)) 0 s"

section \<open>Example runs\<close>

text \<open>
  Concrete renderers, arguments and directories on which the theorems below are
  instantiated. The first renderer times out at every launch and leaves the directory as
  it is. The second prints the success sentinel at every launch but writes a 10-byte
  video on its first two launches and a complete set of artifacts from the third on. The
  third prints the success sentinel and leaves a subdirectory and no video.
\<close>

definition env_timeout :: env where
  "env_timeout =
     \<lparr>subprocess_run = (\<lambda>n cmd t d. (Inl TimeoutExpired, d)), random_bits = (\<lambda>c. 0),
      sample_positions = (\<lambda>c n k. [0..<k])\<rparr>"

definition small_dir :: directory where
  "small_dir = [(''ground_truth.mp4'', File 10)]"

definition full_dir :: directory where
  "full_dir = [(''ground_truth.mp4'', File 60000), (''first_frame.png'', File 2000),
               (''final_frame.png'', File 2000), (''metadata.json'', File 300)]"

definition sentinel_out :: completed_process where
  "sentinel_out = \<lparr>returncode = 0, stdout = ''Saving keyframes...'' @ ''RENDER_SUCCESS''\<rparr>"

definition env_third :: env where
  "env_third =
     \<lparr>subprocess_run = (\<lambda>n cmd t d. (Inr sentinel_out, if n < 2 then small_dir else full_dir)),
      random_bits = (\<lambda>c. 1),
      sample_positions = (\<lambda>c n k. map (\<lambda>i. (c + i) mod n) [0..<k])\<rparr>"

definition env_frames :: env where
  "env_frames =
     \<lparr>subprocess_run = (\<lambda>n cmd t d. (Inr sentinel_out, [(''frames'', Dir 4096)])),
      random_bits = (\<lambda>c. 0),
      sample_positions = (\<lambda>c n k. [0..<k])\<rparr>"

definition args3 :: retry_args where
  "args3 = \<lparr>blender_path = ''/usr/bin/blender'', task_cfg = [], object_paths = [''a.glb''],
             all_objects = [''a.glb'', ''b.glb'', ''c.glb''], output_dir = ''/tmp/w/job'',
             num_objects = 1, min_video_size = 50000, max_retries = 3, timeout = 600\<rparr>"

definition world0 :: world where
  "world0 = \<lparr>out_dir = [], launches = 0, draws = 0\<rparr>"

definition world_subdir :: world where
  "world_subdir = \<lparr>out_dir = [(''cache'', Dir 4096)], launches = 0, draws = 0\<rparr>"

text \<open>
  A renderer that always succeeds, a small configuration (three jobs, retry bound 2,
  images of 4 by 3 pixels), a generator over one asset, and two parent environments whose
  jobs start in an empty directory and complete in reverse order of submission: in the
  first every job times out, in the second only job 1 renders.
\<close>

definition env_ok :: env where
  "env_ok =
     \<lparr>subprocess_run = (\<lambda>n cmd t d. (Inr sentinel_out, full_dir)), random_bits = (\<lambda>c. 0),
      sample_positions = (\<lambda>c n k. [0..<k])\<rparr>"

definition cfg_example :: TaskConfig where
  "cfg_example =
     \<lparr>num_samples = 3, domain = ''shape_extrapolation'', image_size = (4, 3), fps = 16,
      duration = 4, camera_distance = 7 / 2, camera_elevation = 25, rotations = 1,
      workers = 2, cfg_blender_path = None, cfg_timeout = 600, cfg_min_video_size = 50000,
      cfg_max_retries = 2, object_list = None\<rparr>"

definition gen_example :: TaskGenerator where
  "gen_example =
     \<lparr>config = cfg_example, blender = ''/usr/bin/blender'', objects = [''/assets/a.glb''],
      work_dir = ''/tmp/w'', gen_task_cfg = build_task_config cfg_example\<rparr>"



definition tiny_image :: image where
  "tiny_image = \<lparr>img_mode = ''RGB'', img_size = (1, 1), pixels = [(9, 9, 9)]\<rparr>"

definition genv_timeout :: gen_env where
  "genv_timeout =
     \<lparr>job_env = (\<lambda>out. env_timeout), job_dir = (\<lambda>out. []), as_completed = rev,
      prompt_bits = (\<lambda>k. 0), open_rgb = (\<lambda>p. Inr tiny_image)\<rparr>"

definition genv_mixed :: gen_env where
  "genv_mixed =
     \<lparr>job_env = (\<lambda>out. if out = ''/tmp/w/shape_extrapolation_000001'' then env_ok else env_timeout),
      job_dir = (\<lambda>out. []), as_completed = rev,
      prompt_bits = (\<lambda>k. 0), open_rgb = (\<lambda>p. Inr tiny_image)\<rparr>"

text \<open>
  File systems for \<open>load_objects\<close>. In the first the list exists and holds blank lines
  only. In the second it names three assets, of which the first and the last exist; the
  first is a single triangle.
\<close>

definition fs_blank :: file_system where
  "fs_blank =
     \<lparr>path_exists = (\<lambda>p. p = ''objects.txt''),
      read_lines = (\<lambda>p. [[CHR 0x0A], ''  '' @ [CHR 0x0A]]),
      which_blender = None\<rparr>"

definition fs_assets :: file_system where
  "fs_assets =
     \<lparr>path_exists = (\<lambda>p. p \<in> set [''objects.txt'', ''/assets/tri.glb'', ''/assets/cube.glb'', ''/usr/bin/blender'']),
      read_lines = (\<lambda>p. [''/assets/tri.glb'' @ [CHR 0x0A], ''/assets/gone.glb'' @ [CHR 0x0A],
                          [CHR 0x0A], ''  /assets/cube.glb''  @ [CHR 0x0A]]),
      which_blender = None\<rparr>"

definition no_objaverse :: "string list \<Rightarrow> string \<Rightarrow> string option" where
  "no_objaverse uids = (\<lambda>uid. None)"

definition tri_mesh :: "mesh_object list" where
  "tri_mesh = [\<lparr>vertices = [(0, 0, 0), (1, 0, 0), (0, 1, 0)], location = (0, 0, 0), scale = (1, 1, 1)\<rparr>]"

definition tetra_mesh :: "mesh_object list" where
  "tetra_mesh =
     [\<lparr>vertices = [(0, 0, 0), (1, 0, 0), (0, 1, 0), (0, 0, 1)], location = (0, 0, 0), scale = (1, 1, 1)\<rparr>]"

definition bpy_example :: "string \<Rightarrow> mesh_object list" where
  "bpy_example path =
     (if path = ''/assets/tri.glb'' then tri_mesh
      else if path = ''/assets/cube.glb'' then tetra_mesh else [])"

section \<open>Properties of the retry loop\<close>

text \<open>
  The recursive equation of the loop is applied by hand, through the case analysis below:
  the loop is over, the cleaning raises, the attempt is valid, the redraw raises, or the
  loop goes on with the next attempt.
\<close>

declare retry_loop.simps [simp del]

lemma retry_loop_cases:
  assumes "retry_loop e a i cur w = (r, w', tr)"
  obtains
    (exhausted) "\<not> i < max_retries a" "r = Inr False" "w' = w" "tr = []"
  | (unlink_raises) err d where "i < max_retries a" "unlink_all (out_dir w) = (Some err, d)"
      "r = Inl err" "w' = w\<lparr>out_dir := d\<rparr>" "tr = []"
  | (valid) d w1 where "i < max_retries a" "unlink_all (out_dir w) = (None, d)"
      "render_video_task e (blender_path a) (task_cfg a) cur (output_dir a) (timeout a) (w\<lparr>out_dir := d\<rparr>) = (Inr True, w1)"
      "video_valid (out_dir w1) (min_video_size a)"
      "r = Inr True" "w' = w1" "tr = [\<lparr>objs = cur, reported = True, dir_after = out_dir w1\<rparr>]"
  | (sample_raises) d w1 success err where "i < max_retries a" "unlink_all (out_dir w) = (None, d)"
      "render_video_task e (blender_path a) (task_cfg a) cur (output_dir a) (timeout a) (w\<lparr>out_dir := d\<rparr>) = (Inr success, w1)"
      "\<not> (success \<and> video_valid (out_dir w1) (min_video_size a))"
      "i < max_retries a - 1" "all_objects a \<noteq> []"
      "random_sample e (all_objects a) (min (num_objects a) (int (length (all_objects a)))) w1 = Inl err"
      "r = Inl err" "w' = w1" "tr = [\<lparr>objs = cur, reported = success, dir_after = out_dir w1\<rparr>]"
  | (again) d w1 success next_objs w2 later where "i < max_retries a" "unlink_all (out_dir w) = (None, d)"
      "render_video_task e (blender_path a) (task_cfg a) cur (output_dir a) (timeout a) (w\<lparr>out_dir := d\<rparr>) = (Inr success, w1)"
      "\<not> (success \<and> video_valid (out_dir w1) (min_video_size a))"
      "(if i < max_retries a - 1 \<and> all_objects a \<noteq> []
        then random_sample e (all_objects a) (min (num_objects a) (int (length (all_objects a)))) w1
        else Inr (cur, w1)) = Inr (next_objs, w2)"
      "retry_loop e a (i + 1) next_objs w2 = (r, w', later)"
      "tr = \<lparr>objs = cur, reported = success, dir_after = out_dir w1\<rparr> # later"
proof (cases "i < max_retries a")
  case False
  with assms show thesis
    by (intro exhausted) (simp_all add: retry_loop.simps[of e a i cur w])
next
  case lt: True
  obtain oe d where u: "unlink_all (out_dir w) = (oe, d)" by force
  obtain rv w1 where rvt: "render_video_task e (blender_path a) (task_cfg a) cur (output_dir a) (timeout a) (w\<lparr>out_dir := d\<rparr>) = (rv, w1)" by force
  show thesis
  proof (cases oe)
    case (Some err)
    with assms lt u show thesis
      by (intro unlink_raises[of err d]) (simp_all add: retry_loop.simps[of e a i cur w])
  next
    case None
    show thesis
    proof (cases rv)
      case (Inl err)
      then show thesis using rvt by (auto simp: render_video_task_def Let_def split: prod.splits sum.splits run_exn.splits)
    next
      case (Inr success)
      show thesis
      proof (cases "success \<and> video_valid (out_dir w1) (min_video_size a)")
        case True
        with assms lt u None rvt Inr show thesis
          by (intro valid[of d w1]) (auto simp: retry_loop.simps[of e a i cur w])
      next
        case nv: False
        let ?s = "(if i < max_retries a - 1 \<and> all_objects a \<noteq> []
        then random_sample e (all_objects a) (min (num_objects a) (int (length (all_objects a)))) w1
        else Inr (cur, w1))"
        show thesis
        proof (cases ?s)
          case (Inl err)
          with assms lt u None rvt Inr nv show thesis
            by (intro sample_raises[of d success w1 err]) (auto simp: retry_loop.simps[of e a i cur w] split: if_splits)
        next
          case sr: (Inr p)
          obtain next_objs w2 where p: "p = (next_objs, w2)" by force
          obtain r0 w3 later where rec: "retry_loop e a (i + 1) next_objs w2 = (r0, w3, later)"
            using prod_cases3 by blast
          from assms lt u None rvt Inr nv sr p rec show thesis
            by (intro again[of d success w1 next_objs w2 later]) (auto simp: retry_loop.simps[of e a i cur w] split: if_splits)
        qed
      qed
    qed
  qed
qed

lemma str_contains_sublist: "str_contains needle hay = sublist needle hay"
  by (induction hay) (simp_all add: sublist_Cons_right)

lemma render_video_task_world:
  assumes "render_video_task e bp cfg ops od t w = (r, w1)"
  shows "launches w1 = Suc (launches w)" and "draws w1 = draws w"
    and "out_dir w1 = snd (subprocess_run e (launches w) (build_cmd bp cfg ops od) t (out_dir w))"
  using assms by (auto simp: render_video_task_def Let_def split: prod.splits)


lemma next_objs_world:
  assumes "(if c then random_sample e pop k w1 else Inr (cur, w1)) = Inr (nxt, w2)"
  shows "launches w2 = launches w1" and "out_dir w2 = out_dir w1"
  using assms by (auto simp: random_sample_def split: if_splits)

lemma retry_loop_launches:
  "retry_loop e a i cur w = (r, w', tr) \<Longrightarrow>
     launches w' = launches w + length tr \<and> length tr \<le> nat (max_retries a - i)"
proof (induction "nat (max_retries a - i)" arbitrary: i cur w r w' tr)
  case 0
  from "0.prems" show ?case using "0.hyps" by (cases rule: retry_loop_cases) auto
next
  case (Suc n)
  from Suc.prems show ?case
  proof (cases rule: retry_loop_cases)
    case (again d w1 success next_objs w2 later)
    from Suc.hyps(2) have n: "n = nat (max_retries a - (i + 1))" by simp
    from Suc.hyps(1)[OF n again(6)]
    have "launches w' = launches w2 + length later" "length later \<le> n" using n by simp_all
    moreover have "launches w2 = Suc (launches w)"
      using next_objs_world(1)[OF again(5)] render_video_task_world(1)[OF again(3)] by simp
    ultimately show ?thesis using again(7) Suc.hyps(2) by simp
  next
    case (valid d w1)
    then show ?thesis using render_video_task_world(1)[OF valid(3)] by simp
  next
    case (sample_raises d w1 success err)
    then show ?thesis using render_video_task_world(1)[OF sample_raises(3)] by simp
  qed auto
qed

lemma retry_loop_valid:
  "retry_loop e a i cur w = (r, w', tr) \<Longrightarrow>
     (r = Inr True \<longleftrightarrow> tr \<noteq> [] \<and> attempt_valid (min_video_size a) (last tr)) \<and>
     (\<forall>k<length tr. attempt_valid (min_video_size a) (tr ! k) \<longrightarrow> Suc k = length tr)"
proof (induction "nat (max_retries a - i)" arbitrary: i cur w r w' tr)
  case 0
  from "0.prems" show ?case using "0.hyps" by (cases rule: retry_loop_cases) auto
next
  case (Suc n)
  from Suc.prems show ?case
  proof (cases rule: retry_loop_cases)
    case (again d w1 success next_objs w2 later)
    from Suc.hyps(2) have n: "n = nat (max_retries a - (i + 1))" by simp
    note IH = Suc.hyps(1)[OF n again(6)]
    let ?this = "\<lparr>objs = cur, reported = success, dir_after = out_dir w1\<rparr>"
    have nv: "\<not> attempt_valid (min_video_size a) ?this"
      using again(4) by (simp add: attempt_valid_def)
    have "(r = Inr True) = (tr \<noteq> [] \<and> attempt_valid (min_video_size a) (last tr))"
      using IH nv again(7) by auto
    moreover have "\<forall>k<length tr. attempt_valid (min_video_size a) (tr ! k) \<longrightarrow> Suc k = length tr"
    proof (intro allI impI)
      fix k assume k: "k < length tr" and v: "attempt_valid (min_video_size a) (tr ! k)"
      show "Suc k = length tr"
      proof (cases k)
        case 0
        with v nv again(7) show ?thesis by simp
      next
        case (Suc k')
        with k v again(7) IH show ?thesis by simp
      qed
    qed
    ultimately show ?thesis by blast
  next
    case (valid d w1)
    then show ?thesis by (simp add: attempt_valid_def)
  next
    case (sample_raises d w1 success err)
    then show ?thesis by (auto simp: attempt_valid_def)
  qed auto
qed

lemma retry_loop_exhausted:
  "retry_loop e a i cur w = (r, w', tr) \<Longrightarrow>
     (r = Inr False \<longrightarrow> length tr = nat (max_retries a - i)) \<and>
     (length tr = nat (max_retries a - i) \<longrightarrow> r = Inr True \<or> r = Inr False)"
proof (induction "nat (max_retries a - i)" arbitrary: i cur w r w' tr)
  case 0
  from "0.prems" show ?case using "0.hyps" by (cases rule: retry_loop_cases) auto
next
  case (Suc n)
  from Suc.prems show ?case
  proof (cases rule: retry_loop_cases)
    case (again d w1 success next_objs w2 later)
    from Suc.hyps(2) have n: "n = nat (max_retries a - (i + 1))" by simp
    from Suc.hyps(1)[OF n again(6)] n Suc.hyps(2) again(7) show ?thesis by simp
  next
    case (sample_raises d w1 success err)
    then show ?thesis by auto
  next
    case (unlink_raises err d)
    then show ?thesis by auto
  qed auto
qed

lemma retry_loop_first_objs:
  "retry_loop e a i cur w = (r, w', tr) \<Longrightarrow> tr \<noteq> [] \<Longrightarrow> objs (tr ! 0) = cur"
  by (cases rule: retry_loop_cases) auto


lemma unlink_all_files_only: "files_only d \<Longrightarrow> unlink_all d = (None, [])"
  by (induction d rule: unlink_all.induct) (auto simp: files_only_def)

lemma unlink_all_None: "unlink_all d = (None, d') \<Longrightarrow> d' = []"
  by (induction d rule: unlink_all.induct) auto

lemma retry_loop_returns:
  assumes clean: "\<forall>n c t d. files_only d \<longrightarrow> files_only (snd (subprocess_run e n c t d))"
    and k: "0 \<le> num_objects a"
  shows "files_only (out_dir w) \<Longrightarrow> retry_loop e a i cur w = (r, w', tr) \<Longrightarrow> \<exists>b. r = Inr b"
proof (induction "nat (max_retries a - i)" arbitrary: i cur w r w' tr)
  case 0
  from "0.prems"(2) show ?case using "0.hyps" by (cases rule: retry_loop_cases) auto
next
  case (Suc n)
  from Suc.prems(2) show ?case
  proof (cases rule: retry_loop_cases)
    case (again d w1 success next_objs w2 later)
    from Suc.hyps(2) have n: "n = nat (max_retries a - (i + 1))" by simp
    have "files_only d" using unlink_all_None[OF again(2)] by (simp add: files_only_def)
    then have "files_only (out_dir w1)"
      using render_video_task_world(3)[OF again(3)] clean by simp
    then have "files_only (out_dir w2)"
      using next_objs_world(2)[OF again(5)] by simp
    from Suc.hyps(1)[OF n this again(6)] show ?thesis .
  next
    case (unlink_raises err d)
    with Suc.prems(1) show ?thesis by (simp add: unlink_all_files_only)
  next
    case (sample_raises d w1 success err)
    with k show ?thesis by (simp add: random_sample_def split: if_splits)
  qed auto
qed

lemma render_video_task_launch:
  assumes "render_video_task e bp cfg ps od t w = (r, w1)" and "out_dir w = []"
  shows "launch e bp cfg od t (launches w) ps = (r, out_dir w1)"
  using assms by (auto simp: launch_def render_video_task_def Let_def split: prod.splits)

lemma retry_loop_launch:
  "retry_loop e a i cur w = (r, w', tr) \<Longrightarrow> k < length tr \<Longrightarrow>
     launch e (blender_path a) (task_cfg a) (output_dir a) (timeout a) (launches w + k) (objs (tr ! k))
       = (Inr (reported (tr ! k)), dir_after (tr ! k))"
proof (induction "nat (max_retries a - i)" arbitrary: i cur w r w' tr k)
  case 0
  from "0.prems"(1) show ?case using "0.hyps" "0.prems"(2) by (cases rule: retry_loop_cases) auto
next
  case (Suc n)
  from Suc.prems(1) show ?case
  proof (cases rule: retry_loop_cases)
    case (again d w1 success next_objs w2 later)
    from Suc.hyps(2) have n: "n = nat (max_retries a - (i + 1))" by simp
    have d: "d = []" using unlink_all_None[OF again(2)] .
    have here: "launch e (blender_path a) (task_cfg a) (output_dir a) (timeout a) (launches w) cur
        = (Inr success, out_dir w1)"
      using render_video_task_launch[OF again(3)] d by simp
    have l2: "launches w2 = Suc (launches w)"
      using next_objs_world(1)[OF again(5)] render_video_task_world(1)[OF again(3)] by simp
    show ?thesis
    proof (cases k)
      case 0
      with here again(7) show ?thesis by simp
    next
      case (Suc k')
      with Suc.hyps(1)[OF n again(6), of k'] Suc.prems(2) again(7) l2 show ?thesis by simp
    qed
  next
    case (valid d w1)
    have "d = []" using unlink_all_None[OF valid(2)] .
    with render_video_task_launch[OF valid(3)] valid(7) Suc.prems(2) show ?thesis by simp
  next
    case (sample_raises d w1 success err)
    have "d = []" using unlink_all_None[OF sample_raises(2)] .
    with render_video_task_launch[OF sample_raises(3)] sample_raises(10) Suc.prems(2)
    show ?thesis by simp
  qed (use Suc.prems(2) in auto)
qed

lemma retry_loop_out_dir:
  "retry_loop e a i cur w = (Inr b, w', tr) \<Longrightarrow> tr \<noteq> [] \<Longrightarrow> out_dir w' = dir_after (last tr)"
proof (induction "nat (max_retries a - i)" arbitrary: i cur w w' tr)
  case 0
  from "0.prems"(1) show ?case using "0.hyps" "0.prems"(2) by (cases rule: retry_loop_cases) auto
next
  case (Suc n)
  from Suc.prems(1) show ?case
  proof (cases rule: retry_loop_cases)
    case (again d w1 success next_objs w2 later)
    from Suc.hyps(2) have n: "n = nat (max_retries a - (i + 1))" by simp
    have o2: "out_dir w2 = out_dir w1" using next_objs_world(2)[OF again(5)] .
    show ?thesis
    proof (cases "later = []")
      case True
      from again(6) True have "w' = w2" by (cases rule: retry_loop_cases) auto
      with True again(7) o2 show ?thesis by simp
    next
      case False
      with Suc.hyps(1)[OF n again(6)] again(7) show ?thesis by simp
    qed
  qed (use Suc.prems(2) in auto)
qed

lemma retry_loop_nonempty:
  "retry_loop e a i cur w = (r, w', tr) \<Longrightarrow> i < max_retries a \<Longrightarrow> files_only (out_dir w) \<Longrightarrow>
     tr \<noteq> []"
  by (cases rule: retry_loop_cases) (auto simp: unlink_all_files_only)

lemma retry_loop_retries:
  "retry_loop e a i cur w = (r, w', tr) \<Longrightarrow> k < length tr \<Longrightarrow>
     \<not> attempt_valid (min_video_size a) (tr ! k) \<Longrightarrow> i + int k + 1 < max_retries a \<Longrightarrow>
     files_only (dir_after (tr ! k)) \<Longrightarrow> 0 \<le> num_objects a \<or> all_objects a = [] \<Longrightarrow>
     Suc k < length tr"
proof (induction "nat (max_retries a - i)" arbitrary: i cur w r w' tr k)
  case 0
  from "0.prems"(1) show ?case using "0.hyps" "0.prems"(2) by (cases rule: retry_loop_cases) auto
next
  case (Suc n)
  from Suc.prems(1) show ?case
  proof (cases rule: retry_loop_cases)
    case (again d w1 success next_objs w2 later)
    from Suc.hyps(2) have n: "n = nat (max_retries a - (i + 1))" by simp
    have o2: "out_dir w2 = out_dir w1" using next_objs_world(2)[OF again(5)] .
    show ?thesis
    proof (cases k)
      case 0
      with Suc.prems(5) again(7) o2 have "files_only (out_dir w2)" by simp
      moreover from 0 Suc.prems(4) have "i + 1 < max_retries a" by simp
      ultimately have "later \<noteq> []" using retry_loop_nonempty[OF again(6)] by simp
      with 0 again(7) show ?thesis by simp
    next
      case (Suc k')
      have "Suc k' < length later"
        using Suc.hyps(1)[OF n again(6), of k'] Suc.prems(2,3,4,5,6) Suc again(7) by simp
      with Suc again(7) show ?thesis by simp
    qed
  next
    case (valid d w1)
    with Suc.prems(2,3) show ?thesis by (simp add: attempt_valid_def)
  next
    case (sample_raises d w1 success err)
    with Suc.prems(6) show ?thesis by (auto simp: random_sample_def split: if_splits)
  qed (use Suc.prems(2) in auto)
qed




lemma unlink_all_raises: "\<not> files_only d \<Longrightarrow> \<exists>d'. unlink_all d = (Some IsADirectoryError, d')"
  by (induction d rule: unlink_all.induct) (auto simp: files_only_def)

lemma retry_loop_raises:
  "retry_loop e a i cur w = (r, w', tr) \<Longrightarrow> k < length tr \<Longrightarrow>
     \<not> attempt_valid (min_video_size a) (tr ! k) \<Longrightarrow> i + int k + 1 < max_retries a \<Longrightarrow>
     \<not> files_only (dir_after (tr ! k)) \<Longrightarrow> 0 \<le> num_objects a \<or> all_objects a = [] \<Longrightarrow>
     Suc k = length tr \<and> r = Inl IsADirectoryError"
proof (induction "nat (max_retries a - i)" arbitrary: i cur w r w' tr k)
  case 0
  from "0.prems"(1) show ?case using "0.hyps" "0.prems"(2) by (cases rule: retry_loop_cases) auto
next
  case (Suc n)
  from Suc.prems(1) show ?case
  proof (cases rule: retry_loop_cases)
    case (again d w1 success next_objs w2 later)
    from Suc.hyps(2) have n: "n = nat (max_retries a - (i + 1))" by simp
    have o2: "out_dir w2 = out_dir w1" using next_objs_world(2)[OF again(5)] .
    show ?thesis
    proof (cases k)
      case 0
      with Suc.prems(5) again(7) o2 have "\<not> files_only (out_dir w2)" by simp
      then obtain d' where u: "unlink_all (out_dir w2) = (Some IsADirectoryError, d')"
        using unlink_all_raises by blast
      from 0 Suc.prems(4) have lt: "i + 1 < max_retries a" by simp
      from again(6) u lt have "later = [] \<and> r = Inl IsADirectoryError"
        by (cases rule: retry_loop_cases) auto
      with 0 again(7) show ?thesis by simp
    next
      case (Suc k')
      have "Suc k' = length later \<and> r = Inl IsADirectoryError"
        using Suc.hyps(1)[OF n again(6), of k'] Suc.prems(2,3,4,5,6) Suc again(7) by simp
      with Suc again(7) show ?thesis by simp
    qed
  next
    case (valid d w1)
    with Suc.prems(2,3) show ?thesis by (simp add: attempt_valid_def)
  next
    case (sample_raises d w1 success err)
    with Suc.prems(6) show ?thesis by (auto simp: random_sample_def split: if_splits)
  qed (use Suc.prems(2) in auto)
qed


lemma attempt_valid_iff:
  "attempt_valid m x \<longleftrightarrow>
     reported x \<and> (\<exists>s. map_of (dir_after x) ''ground_truth.mp4'' = Some s \<and> m < int (st_size s))"
  by (auto simp: attempt_valid_def video_valid_def split: option.splits)

lemma render_one_launches:
  assumes "render_one ge (tid, bl, pool, cfg, msz, m, tmo, wd) = (jr, jw, jtr)"
  shows "launches jw = length jtr \<and> length jtr \<le> nat m"
proof (cases "pool = []")
  case True
  with assms show ?thesis by (auto simp: render_one_def random_choice_def Let_def)
next
  case False
  let ?out = "wd @ ''/'' @ tid"
  let ?e = "job_env ge ?out"
  let ?w1 = "\<lparr>out_dir = job_dir ge ?out, launches = 0, draws = Suc 0\<rparr>"
  let ?a = "\<lparr>blender_path = bl, task_cfg = cfg,
             object_paths = [pool ! (random_bits ?e 0 mod length pool)],
             all_objects = pool, output_dir = ?out, num_objects = NUM_OBJECTS,
             min_video_size = msz, max_retries = m, timeout = tmo\<rparr>"
  obtain r w2 tr where run: "retry_loop ?e ?a 0 (object_paths ?a) ?w1 = (r, w2, tr)"
    using prod_cases3 by blast
  from retry_loop_launches[OF run] have L: "launches w2 = length tr" "length tr \<le> nat m"
    by simp_all
  from assms False run have "jw = w2 \<and> jtr = tr"
    by (cases r) (auto simp: render_one_def random_choice_def render_with_retry_def Let_def)
  with L show ?thesis by simp
qed



section \<open>Example runs, evaluated\<close>

lemmas example_defs = env_timeout_def env_third_def args3_def world0_def world_subdir_def
  small_dir_def full_dir_def sentinel_out_def

lemmas run_defs = render_with_retry_def retry_loop.simps render_video_task_def random_sample_def
  video_valid_def build_cmd_def Let_def

lemma run_third:
  "render_with_retry env_third args3 world0 =
     (Inr True, \<lparr>out_dir = full_dir, launches = 3, draws = 2\<rparr>,
      [\<lparr>objs = [''a.glb''], reported = True, dir_after = small_dir\<rparr>,
       \<lparr>objs = [''a.glb''], reported = True, dir_after = small_dir\<rparr>,
       \<lparr>objs = [''b.glb''], reported = True, dir_after = full_dir\<rparr>])"
  by (simp add: run_defs example_defs)

lemma run_timeout:
  "render_with_retry env_timeout args3 world0 =
     (Inr False, \<lparr>out_dir = [], launches = 3, draws = 2\<rparr>,
      [\<lparr>objs = [''a.glb''], reported = False, dir_after = []\<rparr>,
       \<lparr>objs = [''a.glb''], reported = False, dir_after = []\<rparr>,
       \<lparr>objs = [''a.glb''], reported = False, dir_after = []\<rparr>])"
  by (simp add: run_defs example_defs)

lemma run_subdir:
  "render_with_retry env_timeout args3 world_subdir = (Inl IsADirectoryError, world_subdir, [])"
  by (simp add: run_defs example_defs)

lemma run_frames:
  "render_with_retry env_frames args3 world0 =
     (Inl IsADirectoryError, \<lparr>out_dir = [(''frames'', Dir 4096)], launches = 1, draws = 1\<rparr>,
      [\<lparr>objs = [''a.glb''], reported = True, dir_after = [(''frames'', Dir 4096)]\<rparr>])"
  by (simp add: run_defs example_defs env_frames_def)

lemmas gen_example_defs = gen_example_def cfg_example_def genv_timeout_def genv_mixed_def
  env_ok_def tiny_image_def

lemma job_tuple_example:
  "job_tuple gen_example tid =
     (tid, ''/usr/bin/blender'', [''/assets/a.glb''], build_task_config cfg_example,
      50000, 2, 600, ''/tmp/w'')"
  by (simp add: job_tuple_def gen_example_def cfg_example_def)

lemma run_one_timeout:
  "render_one genv_timeout (job_tuple gen_example ''j'') =
     (Inr \<lparr>result_task_id = ''j'', result_output_dir = ''/tmp/w/j'', success = False\<rparr>,
      \<lparr>out_dir = [], launches = 2, draws = 2\<rparr>,
      [\<lparr>objs = [''/assets/a.glb''], reported = False, dir_after = []\<rparr>,
       \<lparr>objs = [''/assets/a.glb''], reported = False, dir_after = []\<rparr>])"
  by (simp add: job_tuple_example render_one_def random_choice_def NUM_OBJECTS_def run_defs
      genv_timeout_def env_timeout_def)

section \<open>The claims about shared/renderer.py\<close>

text \<open>
  C10. With \<open>max_retries = 0\<close> the loop body never runs: \<open>render_with_retry\<close> returns
  \<open>False\<close>, makes no attempt (the renderer is not launched) and leaves the world, and with
  it the output directory, exactly as it was (no file is deleted).
\<close>

theorem render_with_retry_zero:
  "render_with_retry e (a\<lparr>max_retries := 0\<rparr>) w = (Inr False, w, [])"
  by (simp add: render_with_retry_def retry_loop.simps)

text \<open>
  C2. A call of \<open>render_with_retry\<close> with retry bound \<open>m\<close> launches the renderer once per
  recorded attempt and makes at most \<open>m\<close> attempts (none when \<open>m\<close> is not positive). When
  all \<open>m\<close> attempts were made and none of them was valid, the call returns \<open>False\<close>: it
  does not raise. The job, \<open>_render_one\<close>, calls \<open>render_with_retry\<close> once and launches
  nothing itself, so a whole job launches the renderer at most \<open>m\<close> times as well.
\<close>

theorem render_with_retry_bounded:
  "(render_with_retry e a w = (r, w', tr) \<longrightarrow>
      launches w' = launches w + length tr \<and>
      length tr \<le> nat (max_retries a) \<and>
      (length tr = nat (max_retries a) \<and> (\<forall>x\<in>set tr. \<not> attempt_valid (min_video_size a) x)
         \<longrightarrow> r = Inr False)) \<and>
   (render_one ge (tid, bl, pool, cfg, msz, m, tmo, wd) = (jr, jw, jtr) \<longrightarrow>
      launches jw = length jtr \<and> length jtr \<le> nat m)"
proof (intro conjI impI)
  assume run: "render_with_retry e a w = (r, w', tr)"
  then have loop: "retry_loop e a 0 (object_paths a) w = (r, w', tr)"
    by (simp add: render_with_retry_def)
  from retry_loop_launches[OF loop]
  show "launches w' = launches w + length tr" and "length tr \<le> nat (max_retries a)"
    by simp_all
  assume "length tr = nat (max_retries a) \<and> (\<forall>x\<in>set tr. \<not> attempt_valid (min_video_size a) x)"
  then have full: "length tr = nat (max_retries a)"
    and none: "\<forall>x\<in>set tr. \<not> attempt_valid (min_video_size a) x" by simp_all
  from retry_loop_exhausted[OF loop] full have "r = Inr True \<or> r = Inr False" by simp
  moreover have "r \<noteq> Inr True"
  proof
    assume "r = Inr True"
    with retry_loop_valid[OF loop] have "tr \<noteq> []" "attempt_valid (min_video_size a) (last tr)"
      by simp_all
    with none show False using last_in_set by blast
  qed
  ultimately show "r = Inr False" by simp
next
  assume "render_one ge (tid, bl, pool, cfg, msz, m, tmo, wd) = (jr, jw, jtr)"
  from render_one_launches[OF this]
  show "launches jw = length jtr" and "length jtr \<le> nat m" by simp_all
qed

theorem render_with_retry_bounded_witness:
  "render_with_retry env_timeout args3 world0 =
     (Inr False, \<lparr>out_dir = [], launches = 3, draws = 2\<rparr>,
      [\<lparr>objs = [''a.glb''], reported = False, dir_after = []\<rparr>,
       \<lparr>objs = [''a.glb''], reported = False, dir_after = []\<rparr>,
       \<lparr>objs = [''a.glb''], reported = False, dir_after = []\<rparr>]) \<and>
   launches \<lparr>out_dir = [], launches = 3, draws = 2\<rparr> = launches world0 + 3 \<and>
   (3::nat) \<le> nat (max_retries args3) \<and>
   render_one genv_timeout (job_tuple gen_example ''j'') =
     (Inr \<lparr>result_task_id = ''j'', result_output_dir = ''/tmp/w/j'', success = False\<rparr>,
      \<lparr>out_dir = [], launches = 2, draws = 2\<rparr>,
      [\<lparr>objs = [''/assets/a.glb''], reported = False, dir_after = []\<rparr>,
       \<lparr>objs = [''/assets/a.glb''], reported = False, dir_after = []\<rparr>]) \<and>
   launches \<lparr>out_dir = [], launches = 2, draws = 2\<rparr> = (2::nat) \<and>
   (2::nat) \<le> nat (cfg_max_retries cfg_example)"
proof -
  note one = run_one_timeout[unfolded job_tuple_example]
  note T = render_with_retry_bounded[of env_timeout args3 world0 "Inr False"
      "\<lparr>out_dir = [], launches = 3, draws = 2\<rparr>"
      "[\<lparr>objs = [''a.glb''], reported = False, dir_after = []\<rparr>,
       \<lparr>objs = [''a.glb''], reported = False, dir_after = []\<rparr>,
       \<lparr>objs = [''a.glb''], reported = False, dir_after = []\<rparr>]"
      genv_timeout "''j''" "''/usr/bin/blender''" "[''/assets/a.glb'']"
      "build_task_config cfg_example" 50000 2 600 "''/tmp/w''"
      "Inr \<lparr>result_task_id = ''j'', result_output_dir = ''/tmp/w/j'', success = False\<rparr>"
      "\<lparr>out_dir = [], launches = 2, draws = 2\<rparr>"
      "[\<lparr>objs = [''/assets/a.glb''], reported = False, dir_after = []\<rparr>,
       \<lparr>objs = [''/assets/a.glb''], reported = False, dir_after = []\<rparr>]"]
  from T run_timeout one show ?thesis
    by (simp add: run_one_timeout world0_def args3_def cfg_example_def)
qed

text \<open>
  C3 (amended). Every recorded attempt is one launch made by \<open>render_video_task\<close> on the
  emptied output directory with the recorded object paths, and records what that call
  returned and what it left in the directory; with a positive retry bound and an output
  directory of regular files there is a first attempt, on the caller's object paths.
  \<open>render_with_retry\<close> returns \<open>True\<close> exactly when its last attempt is valid: the
  invocation returned true, \<open>ground_truth.mp4\<close> exists in the output directory and its
  size is strictly above \<open>min_video_size\<close>; a valid attempt is the last one, and what it
  left is the final content of the directory. An attempt that is not valid, for instance
  one whose subprocess reported success but whose video is missing or not larger than
  \<open>min_video_size\<close>, is followed by another attempt when attempts remain, provided it
  left only regular files in the output directory and \<open>num_objects\<close> is not negative; if
  it left a subdirectory, the next cleaning raises \<open>IsADirectoryError\<close> and there is
  no further attempt.
\<close>
theorem render_with_retry_validation:
  "render_with_retry e a w = (r, w', tr) \<Longrightarrow>
     launches w' = launches w + length tr \<and>
     (\<forall>k<length tr.
        launch e (blender_path a) (task_cfg a) (output_dir a) (timeout a) (launches w + k)
            (objs (tr ! k))
          = (Inr (reported (tr ! k)), dir_after (tr ! k))) \<and>
     (0 < max_retries a \<and> files_only (out_dir w) \<longrightarrow> tr \<noteq> [] \<and> objs (tr ! 0) = object_paths a) \<and>
     (r = Inr True \<longleftrightarrow>
        tr \<noteq> [] \<and> reported (last tr) \<and>
        (\<exists>s. map_of (dir_after (last tr)) ''ground_truth.mp4'' = Some s \<and>
             min_video_size a < int (st_size s))) \<and>
     (r = Inr True \<longrightarrow> out_dir w' = dir_after (last tr)) \<and>
     (\<forall>k<length tr. attempt_valid (min_video_size a) (tr ! k) \<longrightarrow>
        Suc k = length tr \<and> r = Inr True) \<and>
     (\<forall>k<length tr. \<not> attempt_valid (min_video_size a) (tr ! k) \<and> int k + 1 < max_retries a \<and>
        (0 \<le> num_objects a \<or> all_objects a = []) \<longrightarrow>
        (if files_only (dir_after (tr ! k)) then Suc k < length tr
         else Suc k = length tr \<and> r = Inl IsADirectoryError))"
proof -
  assume run: "render_with_retry e a w = (r, w', tr)"
  then have loop: "retry_loop e a 0 (object_paths a) w = (r, w', tr)"
    by (simp add: render_with_retry_def)
  note V = retry_loop_valid[OF loop]
  have 1: "launches w' = launches w + length tr"
    using retry_loop_launches[OF loop] by simp
  have 2: "\<forall>k<length tr.
        launch e (blender_path a) (task_cfg a) (output_dir a) (timeout a) (launches w + k)
            (objs (tr ! k))
          = (Inr (reported (tr ! k)), dir_after (tr ! k))"
    using retry_loop_launch[OF loop] by blast
  have 3: "tr \<noteq> [] \<and> objs (tr ! 0) = object_paths a"
    if "0 < max_retries a" "files_only (out_dir w)"
  proof -
    from retry_loop_nonempty[OF loop that] have "tr \<noteq> []" .
    with retry_loop_first_objs[OF loop] show ?thesis by simp
  qed
  have 4: "r = Inr True \<longleftrightarrow>
        tr \<noteq> [] \<and> reported (last tr) \<and>
        (\<exists>s. map_of (dir_after (last tr)) ''ground_truth.mp4'' = Some s \<and>
             min_video_size a < int (st_size s))"
    using V by (simp add: attempt_valid_iff)
  have 5: "out_dir w' = dir_after (last tr)" if "r = Inr True"
  proof -
    from V that have "tr \<noteq> []" by simp
    with retry_loop_out_dir[of e a 0 "object_paths a" w True w' tr] loop that show ?thesis by simp
  qed
  have 6: "Suc k = length tr \<and> r = Inr True"
    if "k < length tr" "attempt_valid (min_video_size a) (tr ! k)" for k
  proof -
    from V that have last: "Suc k = length tr" by simp
    then have ne: "tr \<noteq> []" by auto
    with last have "last tr = tr ! k" by (metis last_conv_nth diff_Suc_1)
    with V that(2) last ne show ?thesis by simp
  qed
  have 7: "if files_only (dir_after (tr ! k)) then Suc k < length tr
         else Suc k = length tr \<and> r = Inl IsADirectoryError"
    if "k < length tr" "\<not> attempt_valid (min_video_size a) (tr ! k)" "int k + 1 < max_retries a"
       "0 \<le> num_objects a \<or> all_objects a = []" for k
    using retry_loop_retries[OF loop that(1,2)] retry_loop_raises[OF loop that(1,2)] that(3,4)
    by auto
  from 1 2 3 4 5 6 7 show ?thesis by blast
qed

theorem render_with_retry_validation_witness:
  "render_with_retry env_third args3 world0 =
     (Inr True, \<lparr>out_dir = full_dir, launches = 3, draws = 2\<rparr>,
      [\<lparr>objs = [''a.glb''], reported = True, dir_after = small_dir\<rparr>,
       \<lparr>objs = [''a.glb''], reported = True, dir_after = small_dir\<rparr>,
       \<lparr>objs = [''b.glb''], reported = True, dir_after = full_dir\<rparr>]) \<and>
   0 < max_retries args3 \<and> files_only (out_dir world0) \<and> 0 \<le> num_objects args3 \<and>
   \<not> attempt_valid (min_video_size args3) \<lparr>objs = [''a.glb''], reported = True, dir_after = small_dir\<rparr> \<and>
   files_only small_dir \<and>
   attempt_valid (min_video_size args3) \<lparr>objs = [''b.glb''], reported = True, dir_after = full_dir\<rparr> \<and>
   launch env_third (blender_path args3) (task_cfg args3) (output_dir args3) (timeout args3) 2 [''b.glb'']
     = (Inr True, full_dir)"
proof -
  let ?tr = "[\<lparr>objs = [''a.glb''], reported = True, dir_after = small_dir\<rparr>,
       \<lparr>objs = [''a.glb''], reported = True, dir_after = small_dir\<rparr>,
       \<lparr>objs = [''b.glb''], reported = True, dir_after = full_dir\<rparr>]"
  note T = render_with_retry_validation[OF run_third]
  from T[THEN conjunct2, THEN conjunct1, rule_format, of 2]
  have l: "launch env_third (blender_path args3) (task_cfg args3) (output_dir args3) (timeout args3) 2 [''b.glb'']
     = (Inr True, full_dir)" by (simp add: world0_def numeral_2_eq_2)
  have a: "0 < max_retries args3" "files_only (out_dir world0)" "0 \<le> num_objects args3"
    "files_only small_dir"
    by (simp_all add: args3_def world0_def files_only_def small_dir_def)
  have v: "\<not> attempt_valid (min_video_size args3) \<lparr>objs = [''a.glb''], reported = True, dir_after = small_dir\<rparr>"
    "attempt_valid (min_video_size args3) \<lparr>objs = [''b.glb''], reported = True, dir_after = full_dir\<rparr>"
    by (simp_all add: attempt_valid_def video_valid_def small_dir_def full_dir_def args3_def)
  from run_third a v l show ?thesis by blast
qed

text \<open>
  The claim as stated fails when a failed attempt leaves a subdirectory: the renderer
  reports success, writes no video and leaves a directory \<open>frames\<close>; two attempts
  remain, yet the renderer is launched once and the call raises.
\<close>

theorem render_with_retry_validation_counterexample:
  "render_with_retry env_frames args3 world0 =
     (Inl IsADirectoryError, \<lparr>out_dir = [(''frames'', Dir 4096)], launches = 1, draws = 1\<rparr>,
      [\<lparr>objs = [''a.glb''], reported = True, dir_after = [(''frames'', Dir 4096)]\<rparr>]) \<and>
   map_of [(''frames'', Dir 4096)] ''ground_truth.mp4'' = (None :: entry option) \<and>
   (1::int) < max_retries args3"
  using run_frames by (simp add: args3_def)



text \<open>
  C6 (amended). \<open>render_with_retry\<close> returns a boolean, whatever the renderer reports
  (crash, timeout, missing or undersized artifacts), provided that the output directory
  holds only regular files when the call starts, that the renderer leaves only regular
  files in it, and that \<open>num_objects\<close> is not negative.
\<close>
theorem render_with_retry_returns_bool:
  "files_only (out_dir w) \<Longrightarrow>
   \<forall>n c t d. files_only d \<longrightarrow> files_only (snd (subprocess_run e n c t d)) \<Longrightarrow>
   0 \<le> num_objects a \<Longrightarrow>
   \<exists>b. fst (render_with_retry e a w) = Inr b"
proof -
  assume d: "files_only (out_dir w)"
    and c: "\<forall>n c t d. files_only d \<longrightarrow> files_only (snd (subprocess_run e n c t d))"
    and k: "0 \<le> num_objects a"
  obtain r w' tr where run: "retry_loop e a 0 (object_paths a) w = (r, w', tr)"
    using prod_cases3 by blast
  from retry_loop_returns[OF c k d run] run show ?thesis
    by (simp add: render_with_retry_def)
qed

theorem render_with_retry_returns_bool_witness:
  "files_only (out_dir world0) \<and>
   subprocess_run env_timeout = (\<lambda>n c t d. (Inl TimeoutExpired, d)) \<and>
   0 \<le> num_objects args3 \<and>
   fst (render_with_retry env_timeout args3 world0) = Inr False"
proof -
  have 1: "files_only (out_dir world0)" by (simp add: world0_def files_only_def)
  have 2: "\<forall>n c t d. files_only d \<longrightarrow> files_only (snd (subprocess_run env_timeout n c t d))"
    by (simp add: env_timeout_def)
  have 3: "0 \<le> num_objects args3" by (simp add: args3_def)
  have 4: "subprocess_run env_timeout = (\<lambda>n c t d. (Inl TimeoutExpired, d))"
    by (simp add: env_timeout_def)
  from render_with_retry_returns_bool[OF 1 2 3] 1 3 4 run_timeout show ?thesis by simp
qed

text \<open>
  The claim as stated fails when the output directory holds a subdirectory before the
  call: cleaning it raises \<open>IsADirectoryError\<close>, which leaves the function.
\<close>

theorem render_with_retry_raises_counterexample:
  "fst (render_with_retry env_timeout args3 world_subdir) = Inl IsADirectoryError \<and>
   out_dir world_subdir = [(''cache'', Dir 4096)]"
  using run_subdir by (simp add: world_subdir_def)

text \<open>
  C4. \<open>render_video_task\<close> always returns a boolean and never raises. It returns \<open>True\<close>
  exactly when \<open>subprocess.run\<close> returned a completed process with return code 0 whose
  standard output contains \<open>RENDER_SUCCESS\<close>; when \<open>subprocess.run\<close> raised (timeout or
  any other exception) it returns \<open>False\<close>.
\<close>
theorem render_video_task_sentinel:
  "(\<exists>b. fst (render_video_task e bp cfg ops od t w) = Inr b) \<and>
   (fst (render_video_task e bp cfg ops od t w) = Inr True \<longleftrightarrow>
      (\<exists>p pre post.
         fst (subprocess_run e (launches w) (build_cmd bp cfg ops od) t (out_dir w)) = Inr p \<and>
         returncode p = 0 \<and> stdout p = pre @ ''RENDER_SUCCESS'' @ post)) \<and>
   (\<forall>x. fst (subprocess_run e (launches w) (build_cmd bp cfg ops od) t (out_dir w)) = Inl x \<longrightarrow>
      fst (render_video_task e bp cfg ops od t w) = Inr False)"
proof -
  obtain r d where run: "subprocess_run e (launches w) (build_cmd bp cfg ops od) t (out_dir w) = (r, d)"
    by force
  show ?thesis
  proof (cases r)
    case (Inl x)
    with run show ?thesis
      by (cases x) (auto simp: render_video_task_def Let_def)
  next
    case (Inr p)
    with run show ?thesis
      by (auto simp: render_video_task_def Let_def str_contains_sublist sublist_def)
  qed
qed

theorem render_video_task_sentinel_witness:
  "fst (render_video_task env_third ''/usr/bin/blender'' [] [''a.glb''] ''/tmp/w/job'' 600 world0) = Inr True \<and>
   fst (subprocess_run env_third 0 (build_cmd ''/usr/bin/blender'' [] [''a.glb''] ''/tmp/w/job'') 600 []) = Inr sentinel_out \<and>
   returncode sentinel_out = 0 \<and> stdout sentinel_out = ''Saving keyframes...'' @ ''RENDER_SUCCESS'' @ [] \<and>
   fst (subprocess_run env_timeout 0 (build_cmd ''/usr/bin/blender'' [] [''a.glb''] ''/tmp/w/job'') 600 []) = Inl TimeoutExpired \<and>
   fst (render_video_task env_timeout ''/usr/bin/blender'' [] [''a.glb''] ''/tmp/w/job'' 600 world0) = Inr False"
  using render_video_task_sentinel[of env_third "''/usr/bin/blender''" "[]" "[''a.glb'']" "''/tmp/w/job''" 600 world0]
    render_video_task_sentinel[of env_timeout "''/usr/bin/blender''" "[]" "[''a.glb'']" "''/tmp/w/job''" 600 world0]
  by (simp add: env_third_def env_timeout_def world0_def sentinel_out_def render_video_task_def Let_def)

section \<open>The claims about shared/objects.py\<close>

lemma run_blank: "load_objects fs_blank no_objaverse (Some ''objects.txt'') = Inl ValueError"
  by (simp add: load_objects_def list_path_def stripped_lines_def fs_blank_def strip_def is_space_def)

lemma run_assets:
  "load_objects fs_assets no_objaverse (Some ''objects.txt'') = Inr [''/assets/tri.glb'', ''/assets/cube.glb'']"
  by (simp add: load_objects_def list_path_def stripped_lines_def fs_assets_def strip_def
      is_space_def endswith_def Let_def)


lemma stripped_lines_Nil:
  "stripped_lines fs path = [] \<longleftrightarrow> (\<forall>line\<in>set (read_lines fs path). strip line = [])"
  by (auto simp: stripped_lines_def filter_empty_conv)

lemma map_filter_Nil: "List.map_filter f xs = [] \<longleftrightarrow> (\<forall>x\<in>set xs. f x = None)"
  by (induction xs) (auto simp: List.map_filter_simps split: option.splits)

lemma set_map_filter: "y \<in> set (List.map_filter f xs) \<longleftrightarrow> (\<exists>x\<in>set xs. f x = Some y)"
  by (induction xs) (auto simp: List.map_filter_simps split: option.splits)

lemma filter_as_map_filter: "filter P xs = List.map_filter (\<lambda>x. if P x then Some x else None) xs"
  by (induction xs) (auto simp: List.map_filter_simps)

lemma load_objects_eq:
  "load_objects fs ov ol =
     (let path = list_path ol; lines = stripped_lines fs path;
          valid = List.map_filter (resolve_entry fs ov lines) lines
      in if \<not> path_exists fs path then Inl FileNotFoundError
         else if lines = [] then Inl ValueError
         else if valid = [] then Inl FileNotFoundError
         else Inr valid)"
proof (cases "stripped_lines fs (list_path ol)")
  case Nil
  then show ?thesis by (simp add: load_objects_def Let_def)
next
  case (Cons sample others)
  show ?thesis
  proof (cases "path_mode (sample # others)")
    case True
    then have "resolve_entry fs ov (sample # others) = (\<lambda>x. if path_exists fs x then Some x else None)"
      by (auto simp: resolve_entry_def)
    with Cons True show ?thesis
      by (simp add: load_objects_def Let_def path_mode_def filter_as_map_filter[symmetric])
  next
    case False
    then have "resolve_entry fs ov (sample # others) =
        (\<lambda>uid. case ov (sample # others) uid of None \<Rightarrow> None
               | Some p \<Rightarrow> if p \<noteq> [] \<and> path_exists fs p then Some p else None)"
      by (auto simp: resolve_entry_def)
    with Cons False show ?thesis
      by (simp add: load_objects_def Let_def path_mode_def)
  qed
qed

lemma resolve_entry_exists: "resolve_entry fs ov lines u = Some p \<Longrightarrow> path_exists fs p"
  by (auto simp: resolve_entry_def split: if_splits option.splits)

text \<open>
  C8 (amended). For a list source that, when it exists, is a readable text file,
  \<open>load_objects\<close> fails in exactly three cases, with two different exceptions: it raises
  \<open>FileNotFoundError\<close> when the source does not exist, \<open>ValueError\<close> when the source
  has no non-blank line, and \<open>FileNotFoundError\<close> when it has entries but none resolves
  to an existing local path. Otherwise it returns a non-empty list of paths that all
  exist, in the order of their entries.
\<close>
theorem load_objects_outcomes:
  "(load_objects fs ov ol = Inl FileNotFoundError \<longleftrightarrow>
      \<not> path_exists fs (list_path ol) \<or>
      (stripped_lines fs (list_path ol) \<noteq> [] \<and>
       (\<forall>u\<in>set (stripped_lines fs (list_path ol)).
          resolve_entry fs ov (stripped_lines fs (list_path ol)) u = None))) \<and>
   (load_objects fs ov ol = Inl ValueError \<longleftrightarrow>
      path_exists fs (list_path ol) \<and> (\<forall>line\<in>set (read_lines fs (list_path ol)). strip line = [])) \<and>
   (\<forall>err. load_objects fs ov ol = Inl err \<longrightarrow> err = FileNotFoundError \<or> err = ValueError) \<and>
   (\<forall>xs. load_objects fs ov ol = Inr xs \<longrightarrow>
      xs \<noteq> [] \<and> (\<forall>p\<in>set xs. path_exists fs p) \<and>
      xs = List.map_filter (resolve_entry fs ov (stripped_lines fs (list_path ol)))
             (stripped_lines fs (list_path ol)))"
proof -
  let ?lines = "stripped_lines fs (list_path ol)"
  let ?valid = "List.map_filter (resolve_entry fs ov ?lines) ?lines"
  have v: "\<forall>p\<in>set ?valid. path_exists fs p"
    by (auto simp: set_map_filter dest: resolve_entry_exists)
  show ?thesis
    using v by (auto simp: load_objects_eq Let_def map_filter_Nil stripped_lines_Nil[symmetric])
qed

theorem load_objects_outcomes_witness:
  "load_objects fs_assets no_objaverse (Some ''objects.txt'') = Inr [''/assets/tri.glb'', ''/assets/cube.glb''] \<and>
   path_exists fs_assets ''/assets/tri.glb'' \<and> path_exists fs_assets ''/assets/cube.glb'' \<and>
   load_objects fs_blank no_objaverse (Some ''objects.txt'') = Inl ValueError \<and>
   path_exists fs_blank (list_path (Some ''objects.txt''))"
proof -
  note A = load_objects_outcomes[of fs_assets no_objaverse "Some ''objects.txt''",
      THEN conjunct2, THEN conjunct2, THEN conjunct2, rule_format, OF run_assets]
  from A have 1: "path_exists fs_assets ''/assets/tri.glb''"
    and 2: "path_exists fs_assets ''/assets/cube.glb''" by simp_all
  note B = load_objects_outcomes[of fs_blank no_objaverse "Some ''objects.txt''",
      THEN conjunct2, THEN conjunct1]
  from B run_blank have 3: "path_exists fs_blank (list_path (Some ''objects.txt''))" by blast
  from run_assets 1 2 run_blank 3 show ?thesis by blast
qed

text \<open>
  The claim as stated fails on a list source without a non-blank line: the failure is a
  \<open>ValueError\<close>, not the not-found condition of the two other cases.
\<close>

theorem load_objects_outcomes_counterexample:
  "path_exists fs_blank ''objects.txt'' \<and>
   stripped_lines fs_blank ''objects.txt'' = [] \<and>
   load_objects fs_blank no_objaverse (Some ''objects.txt'') = Inl ValueError \<and>
   load_objects fs_blank no_objaverse (Some ''objects.txt'') \<noteq> Inl FileNotFoundError"
  using run_blank by (simp add: fs_blank_def stripped_lines_def strip_def is_space_def)

lemma run_tetra:
  "import_single_object bpy_example ''/assets/cube.glb'' 2 =
     Inr [\<lparr>vertices = [(0, 0, 0), (1, 0, 0), (0, 1, 0), (0, 0, 1)],
           location = (- (1 / 2), - (1 / 2), - (1 / 2)), scale = (2, 2, 2)\<rparr>]"
  by (simp add: import_single_object_def import_object_def bpy_example_def tetra_mesh_def
      endswith_def suffix_def Let_def bbox_size_def min_coord_def max_coord_def coord_def)







section \<open>The claims about tasks/shape_extrapolation.py\<close>

declare digits.simps [simp del]

lemma num_of_snoc: "num_of (s @ [c]) = 10 * num_of s + (of_char c - 48)"
  by (simp add: num_of_def)

lemma of_char_digit_char: "d < 10 \<Longrightarrow> (of_char (digit_char d) :: nat) = 48 + d"
  by (simp add: digit_char_def)

lemma num_of_digits: "num_of (digits n) = n"
proof (induction n rule: digits.induct)
  case (1 n)
  show ?case
  proof (cases "n < 10")
    case True
    then show ?thesis
      by (subst digits.simps) (simp add: num_of_def of_char_digit_char)
  next
    case False
    with 1 have "num_of (digits (n div 10)) = n div 10" by simp
    with False show ?thesis
      by (subst digits.simps) (simp add: num_of_snoc of_char_digit_char)
  qed
qed

lemma num_of_zeros: "num_of (replicate k CHR ''0'' @ s) = num_of s"
proof -
  have "foldl (\<lambda>a c. 10 * a + (of_char c - 48)) 0 (replicate k CHR ''0'') = (0::nat)"
    by (induction k) simp_all
  then show ?thesis by (simp add: num_of_def)
qed

lemma num_of_zfill6: "num_of (zfill6 i) = i"
  by (simp add: zfill6_def num_of_zeros num_of_digits)

lemma inj_zfill6: "inj zfill6"
  by (rule inj_on_inverseI[where g = num_of]) (simp add: num_of_zfill6)

lemma distinct_task_ids: "distinct (map fst (make_args_list self))"
proof -
  have "inj (\<lambda>i. domain (config self) @ ''_'' @ zfill6 i)"
    using inj_zfill6 by (auto simp: inj_def)
  then have "distinct (map (\<lambda>i. domain (config self) @ ''_'' @ zfill6 i) [0..<nat (num_samples (config self))])"
    by (simp add: distinct_map inj_on_def inj_def)
  moreover have "map fst (make_args_list self) =
      map (\<lambda>i. domain (config self) @ ''_'' @ zfill6 i) [0..<nat (num_samples (config self))]"
    by (simp add: make_args_list_def job_tuple_def comp_def)
  ultimately show ?thesis by simp
qed

lemma result_to_pair_task_id:
  "result_to_pair ge self r k = Inr p \<Longrightarrow> task_id p = result_task_id r"
  by (auto simp: result_to_pair_def Let_def split: if_splits sum.splits)

lemma render_one_task_id:
  "fst (render_one ge a) = Inr r \<Longrightarrow> result_task_id r = fst a"
  by (cases a) (auto simp: render_one_def Let_def split: sum.splits prod.splits)

lemma parallel_render_loop_ids:
  "parallel_render_loop ge self (map (\<lambda>a. fst (render_one ge a)) jobs) pairs ok fail = Inr out \<Longrightarrow>
     map task_id out = map task_id pairs @ map fst (filter (job_succeeded ge) jobs)"
proof (induction jobs arbitrary: pairs ok fail)
  case Nil
  then show ?case by simp
next
  case (Cons a jobs)
  show ?case
  proof (cases "fst (render_one ge a)")
    case (Inl err)
    with Cons.prems show ?thesis by simp
  next
    case (Inr r)
    show ?thesis
    proof (cases "success r")
      case True
      with Cons.prems Inr obtain p where p: "result_to_pair ge self r ok = Inr p"
        and rest: "parallel_render_loop ge self (map (\<lambda>a. fst (render_one ge a)) jobs) (pairs @ [p]) (ok + 1) fail = Inr out"
        by (auto split: sum.splits)
      have "task_id p = fst a"
        using result_to_pair_task_id[OF p] render_one_task_id[OF Inr] by simp
      with Cons.IH[OF rest] Inr True show ?thesis by (simp add: job_succeeded_def)
    next
      case False
      with Cons.prems Inr
      have rest: "parallel_render_loop ge self (map (\<lambda>a. fst (render_one ge a)) jobs) pairs ok (fail + 1) = Inr out"
        by simp
      with Cons.IH[OF rest] Inr False show ?thesis by (simp add: job_succeeded_def)
    qed
  qed
qed

lemma gen_example_fields:
  "num_samples (config gen_example) = 3" "domain (config gen_example) = ''shape_extrapolation''"
  "workers (config gen_example) = 2" "image_size (config gen_example) = (4, 3)"
  by (simp_all add: gen_example_def cfg_example_def)

lemma zfill6_small:
  "zfill6 0 = ''000000''" "zfill6 (Suc 0) = ''000001''" "zfill6 2 = ''000002''"
  by code_simp+

lemma args_example:
  "make_args_list gen_example =
     [job_tuple gen_example ''shape_extrapolation_000000'',
      job_tuple gen_example ''shape_extrapolation_000001'',
      job_tuple gen_example ''shape_extrapolation_000002'']"
proof -
  have "[0..<nat 3] = [0, 1, 2]" by (simp add: upt_rec)
  then show ?thesis
    by (simp add: make_args_list_def gen_example_fields zfill6_small)
qed

lemma run_one_timeout_any:
  "fst (render_one genv_timeout (job_tuple gen_example tid)) =
     Inr \<lparr>result_task_id = tid, result_output_dir = ''/tmp/w/'' @ tid, success = False\<rparr>"
  by (simp add: job_tuple_example render_one_def random_choice_def NUM_OBJECTS_def run_defs
      genv_timeout_def env_timeout_def)

lemma run_one_mixed:
  "fst (render_one genv_mixed (job_tuple gen_example ''shape_extrapolation_000000'')) =
     Inr \<lparr>result_task_id = ''shape_extrapolation_000000'',
          result_output_dir = ''/tmp/w/shape_extrapolation_000000'', success = False\<rparr>"
  "fst (render_one genv_mixed (job_tuple gen_example ''shape_extrapolation_000001'')) =
     Inr \<lparr>result_task_id = ''shape_extrapolation_000001'',
          result_output_dir = ''/tmp/w/shape_extrapolation_000001'', success = True\<rparr>"
  "fst (render_one genv_mixed (job_tuple gen_example ''shape_extrapolation_000002'')) =
     Inr \<lparr>result_task_id = ''shape_extrapolation_000002'',
          result_output_dir = ''/tmp/w/shape_extrapolation_000002'', success = False\<rparr>"
  by (simp_all add: job_tuple_example render_one_def random_choice_def NUM_OBJECTS_def run_defs
      genv_mixed_def env_timeout_def env_ok_def sentinel_out_def full_dir_def)

lemma dataset_timeout: "generate_dataset genv_timeout gen_example = Inr []"
proof -
  have "as_completed genv_timeout = rev" by (simp add: genv_timeout_def)
  then show ?thesis
    by (simp add: generate_dataset_def parallel_render_def gen_example_fields args_example
        run_one_timeout_any)
qed

lemma dataset_mixed:
  "generate_dataset genv_mixed gen_example =
     Inr [\<lparr>task_id = ''shape_extrapolation_000001'', pair_domain = ''shape_extrapolation'',
           prompt = get_prompt genv_mixed 0, first_image = tiny_image, final_image = tiny_image,
           ground_truth_video = Some ''/tmp/w/shape_extrapolation_000001/ground_truth.mp4''\<rparr>]"
proof -
  have "as_completed genv_mixed = rev" "open_rgb genv_mixed = (\<lambda>p. Inr tiny_image)"
    by (simp_all add: genv_mixed_def)
  then show ?thesis
    by (simp add: generate_dataset_def parallel_render_def gen_example_fields args_example
        run_one_mixed result_to_pair_def)
qed

text \<open>
  C1 (amended). Whenever \<open>generate_dataset\<close> returns, with the completed jobs being the
  submitted jobs in some order, the returned sequence holds exactly one \<open>TaskPair\<close> for
  each submitted job whose rendering succeeded, in completion order, under that job's
  task id: no duplicates, no foreign id, at most \<open>num_samples\<close> pairs. A job whose
  rendering failed terminally is counted and has no pair in the returned sequence. A
  return also means that \<open>num_samples\<close> and the worker count are positive.
\<close>
theorem generate_dataset_pairs:
  "generate_dataset ge self = Inr out \<Longrightarrow>
   mset (as_completed ge (make_args_list self)) = mset (make_args_list self) \<Longrightarrow>
     map task_id out = map fst (filter (job_succeeded ge) (as_completed ge (make_args_list self))) \<and>
     mset (map task_id out) = mset (map fst (filter (job_succeeded ge) (make_args_list self))) \<and>
     distinct (map task_id out) \<and>
     length out = length (filter (job_succeeded ge) (make_args_list self)) \<and>
     length out \<le> nat (num_samples (config self)) \<and>
     0 < num_samples (config self) \<and> 0 < workers (config self)"
proof -
  assume run: "generate_dataset ge self = Inr out"
    and perm: "mset (as_completed ge (make_args_list self)) = mset (make_args_list self)"
  let ?args = "make_args_list self"
  let ?done = "as_completed ge ?args"
  from run have pos: "0 < num_samples (config self)" "0 < workers (config self)"
    by (auto simp: generate_dataset_def parallel_render_def Let_def split: if_splits)
  from run have loop: "parallel_render_loop ge self (map (\<lambda>a. fst (render_one ge a)) ?done) [] 0 0 = Inr out"
    by (auto simp: generate_dataset_def parallel_render_def Let_def split: if_splits)
  from parallel_render_loop_ids[OF loop]
  have order: "map task_id out = map fst (filter (job_succeeded ge) ?done)" by simp
  have "mset (filter (job_succeeded ge) ?done) = mset (filter (job_succeeded ge) ?args)"
    using perm by (simp add: mset_filter)
  then have m: "mset (map fst (filter (job_succeeded ge) ?done)) = mset (map fst (filter (job_succeeded ge) ?args))"
    by (metis mset_map)
  have d: "distinct (map fst (filter (job_succeeded ge) ?args))"
    using distinct_task_ids[of self] by (rule distinct_map_filter)
  from m d have d': "distinct (map fst (filter (job_succeeded ge) ?done))"
    by (metis mset_eq_imp_distinct_iff)
  have "length (map task_id out) = length (map fst (filter (job_succeeded ge) ?args))"
    using order m by (metis size_mset)
  then have len: "length out = length (filter (job_succeeded ge) ?args)"
    by (simp only: length_map)
  have "length (filter (job_succeeded ge) ?args) \<le> length ?args" by simp
  also have "length ?args = nat (num_samples (config self))" by (simp add: make_args_list_def)
  finally have le: "length out \<le> nat (num_samples (config self))" using len by simp
  from order m d' len le pos show ?thesis by simp
qed

theorem generate_dataset_pairs_witness:
  "generate_dataset genv_mixed gen_example =
     Inr [\<lparr>task_id = ''shape_extrapolation_000001'', pair_domain = ''shape_extrapolation'',
           prompt = get_prompt genv_mixed 0, first_image = tiny_image, final_image = tiny_image,
           ground_truth_video = Some ''/tmp/w/shape_extrapolation_000001/ground_truth.mp4''\<rparr>] \<and>
   mset (as_completed genv_mixed (make_args_list gen_example)) = mset (make_args_list gen_example) \<and>
   filter (job_succeeded genv_mixed) (make_args_list gen_example) =
     [job_tuple gen_example ''shape_extrapolation_000001''] \<and>
   (1::nat) \<le> nat (num_samples (config gen_example))"
proof -
  have perm: "mset (as_completed genv_mixed (make_args_list gen_example)) = mset (make_args_list gen_example)"
    by (simp add: genv_mixed_def)
  have succ: "filter (job_succeeded genv_mixed) (make_args_list gen_example) =
     [job_tuple gen_example ''shape_extrapolation_000001'']"
    by (simp add: args_example job_succeeded_def run_one_mixed)
  from generate_dataset_pairs[OF dataset_mixed perm]
  have "(1::nat) \<le> nat (num_samples (config gen_example))" by simp
  with dataset_mixed perm succ show ?thesis by blast
qed

text \<open>
  The claim as stated fails when a job fails: three jobs are submitted, the renderer times
  out on every attempt, and the returned sequence is empty instead of holding three
  placeholder pairs.
\<close>

theorem generate_dataset_pairs_counterexample:
  "num_samples (config gen_example) = 3 \<and>
   length (make_args_list gen_example) = 3 \<and>
   generate_dataset genv_timeout gen_example = Inr []"
  using dataset_timeout by (simp add: args_example gen_example_fields)

text \<open>
  C7. For a failed job result and a configured resolution \<open>(w, h)\<close> (two non-negative
  pixel counts), \<open>_result_to_pair\<close> yields a \<open>TaskPair\<close> whose first and final image are
  the same RGB image of exactly \<open>w\<close> by \<open>h\<close> pixels, every pixel black, and which has
  no ground-truth video reference.
\<close>
theorem result_to_pair_failed:
  "\<not> success r \<Longrightarrow> image_size (config self) = (w, h) \<Longrightarrow> 0 \<le> w \<Longrightarrow> 0 \<le> h \<Longrightarrow>
     \<exists>p. result_to_pair ge self r k = Inr p \<and>
         first_image p = \<lparr>img_mode = ''RGB'', img_size = (nat w, nat h),
                           pixels = replicate (nat w * nat h) (0, 0, 0)\<rparr> \<and>
         final_image p = first_image p \<and>
         ground_truth_video p = None \<and>
         task_id p = result_task_id r"
  by (simp add: result_to_pair_def Image_new_def)

theorem result_to_pair_failed_witness:
  "\<not> success \<lparr>result_task_id = ''j'', result_output_dir = ''/tmp/w/j'', success = False\<rparr> \<and>
   image_size (config gen_example) = (4, 3) \<and>
   result_to_pair genv_timeout gen_example
       \<lparr>result_task_id = ''j'', result_output_dir = ''/tmp/w/j'', success = False\<rparr> 0 =
     Inr \<lparr>task_id = ''j'', pair_domain = ''shape_extrapolation'', prompt = get_prompt genv_timeout 0,
          first_image = \<lparr>img_mode = ''RGB'', img_size = (4, 3), pixels = replicate 12 (0, 0, 0)\<rparr>,
          final_image = \<lparr>img_mode = ''RGB'', img_size = (4, 3), pixels = replicate 12 (0, 0, 0)\<rparr>,
          ground_truth_video = None\<rparr>"
proof -
  let ?r = "\<lparr>result_task_id = ''j'', result_output_dir = ''/tmp/w/j'', success = False\<rparr>"
  have f: "\<not> success ?r" by simp
  have z: "(0::int) \<le> 4" "(0::int) \<le> 3" by simp_all
  from result_to_pair_failed[OF f gen_example_fields(4) z, of genv_timeout 0]
  obtain p where p: "result_to_pair genv_timeout gen_example ?r 0 = Inr p"
    and fi: "first_image p = \<lparr>img_mode = ''RGB'', img_size = (4, 3), pixels = replicate 12 (0, 0, 0)\<rparr>"
    and la: "final_image p = first_image p" and v: "ground_truth_video p = None"
    and t: "task_id p = ''j''"
    by auto
  have "pair_domain p = ''shape_extrapolation''" "prompt p = get_prompt genv_timeout 0"
    using p by (auto simp: result_to_pair_def Image_new_def gen_example_fields)
  with fi la v t have "p = \<lparr>task_id = ''j'', pair_domain = ''shape_extrapolation'', prompt = get_prompt genv_timeout 0,
          first_image = \<lparr>img_mode = ''RGB'', img_size = (4, 3), pixels = replicate 12 (0, 0, 0)\<rparr>,
          final_image = \<lparr>img_mode = ''RGB'', img_size = (4, 3), pixels = replicate 12 (0, 0, 0)\<rparr>,
          ground_truth_video = None\<rparr>"
    by (cases p) simp
  with p f gen_example_fields(4) show ?thesis by simp
qed

end
